theory Spec2Isabelle
  imports Complex_Main "HOL-Library.Word" "HOL-Library.AList"
begin

section \<open>JavaScript values used by the launchpad\<close>

subsection \<open>Strings\<close>

text \<open>
  A JavaScript string is a sequence of UTF-16 code units; \<open>length\<close> counts code units,
  as \<open>String.prototype.length\<close> does. \<open>lit\<close> writes a string literal of the source
  (all of them are ASCII).
\<close>

type_synonym code_unit = "16 word"
type_synonym jsstring = "code_unit list"

definition lit :: "string \<Rightarrow> jsstring" where
  "lit s = map of_char s"

text \<open>The class \<open>\d\<close> of a regular expression: the ten ASCII digits and nothing else.\<close>

definition isDigit :: "code_unit \<Rightarrow> bool" where
  "isDigit c = (0x30 \<le> c \<and> c \<le> 0x39)"

definition isUpperAZ :: "code_unit \<Rightarrow> bool" where
  "isUpperAZ c = (0x41 \<le> c \<and> c \<le> 0x5A)"

definition isLowerAZ :: "code_unit \<Rightarrow> bool" where
  "isLowerAZ c = (0x61 \<le> c \<and> c \<le> 0x7A)"

text \<open>
  The code units that \<open>String.prototype.trim\<close> strips and that \<open>\s\<close> matches: the
  WhiteSpace and LineTerminator code points of ECMAScript (tab, LF, VT, FF, CR, space,
  no-break space, U+1680, U+2000 to U+200A, U+2028, U+2029, U+202F, U+205F, U+3000 and
  the byte order mark U+FEFF).
\<close>

definition isWhiteSpace :: "code_unit \<Rightarrow> bool" where
  "isWhiteSpace c =
     (c \<in> set [0x9, 0xA, 0xB, 0xC, 0xD, 0x20, 0xA0, 0x1680, 0x2028, 0x2029,
                0x202F, 0x205F, 0x3000, 0xFEFF]
      \<or> (0x2000 \<le> c \<and> c \<le> 0x200A))"

definition trim :: "jsstring \<Rightarrow> jsstring" where
  "trim s = rev (dropWhile isWhiteSpace (rev (dropWhile isWhiteSpace s)))"

text \<open>\<open>/^\d+$/.test(s)\<close>: one digit at least, and digits only, up to the end of input.\<close>

definition digits_only :: "jsstring \<Rightarrow> bool" where
  "digits_only s = (s \<noteq> [] \<and> list_all isDigit s)"

text \<open>\<open>/^[a-zA-Z0-9\s\-_]+$/.test(s)\<close>, the pattern of a token name.\<close>

definition name_pattern :: "jsstring \<Rightarrow> bool" where
  "name_pattern s =
     (s \<noteq> [] \<and>
      list_all (\<lambda>c. isLowerAZ c \<or> isUpperAZ c \<or> isDigit c \<or> isWhiteSpace c
                   \<or> c = 0x2D \<or> c = 0x5F) s)"

text \<open>\<open>/^[A-Z0-9]+$/.test(s)\<close>, the pattern of a token symbol.\<close>

definition symbol_pattern :: "jsstring \<Rightarrow> bool" where
  "symbol_pattern s = (s \<noteq> [] \<and> list_all (\<lambda>c. isUpperAZ c \<or> isDigit c) s)"

subsection \<open>Numbers, big integers and thrown values\<close>

text \<open>
  A JavaScript number is NaN, an infinity or a finite double; a finite double is the
  rational it denotes (the sign of zero plays no part in this program).
\<close>

datatype number = NaN | PosInfinity | NegInfinity | Finite rat

definition isNaN :: "number \<Rightarrow> bool" where
  "isNaN n = (n = NaN)"

definition isInteger :: "number \<Rightarrow> bool" where
  "isInteger n = (case n of Finite q \<Rightarrow> of_int \<lfloor>q\<rfloor> = q | _ \<Rightarrow> False)"

text \<open>The operator \<open><\<close> on numbers: false as soon as one side is NaN.\<close>

fun number_less :: "number \<Rightarrow> number \<Rightarrow> bool" where
  "number_less NaN _ = False"
| "number_less _ NaN = False"
| "number_less (Finite a) (Finite b) = (a < b)"
| "number_less NegInfinity NegInfinity = False"
| "number_less NegInfinity _ = True"
| "number_less _ NegInfinity = False"
| "number_less PosInfinity _ = False"
| "number_less _ PosInfinity = True"

text \<open>
  What a \<open>throw\<close> carries: an \<open>Error\<close> object with its message, or any other value.
\<close>

datatype thrown = Error jsstring | NonError

text \<open>
  The parts of the JavaScript engine that the program reaches and that are tables or
  texts of the engine itself:
  \<^item> \<open>toUpperCaseUnicode\<close>: \<open>String.prototype.toUpperCase\<close> on a string that holds a
    code unit outside ASCII (the Unicode case mapping; \<open>"\<ss>"\<close> becomes \<open>"SS"\<close>);
  \<^item> \<open>stringToNumber\<close>: \<open>Number(s)\<close> on a trimmed, non-empty string that is not a
    run of at most 15 digits (signs, fractions, exponents, hexadecimal, rounding of
    long digit strings to a double);
  \<^item> \<open>rangeErrorMessage\<close>: the message of the RangeError that \<open>BigInt(n)\<close> throws on
    a number that is not an integer, and \<open>**\<close> on a negative exponent;
  \<^item> \<open>nearestDouble\<close>: the rounding of a rational to the nearest double, which gives
    the value of a decimal literal and of a sum of doubles;
  \<^item> \<open>toFixed\<close>: \<open>Number.prototype.toFixed\<close>, the decimal text of a number.
\<close>

record runtime =
  toUpperCaseUnicode :: "jsstring \<Rightarrow> jsstring"
  stringToNumber :: "jsstring \<Rightarrow> number"
  rangeErrorMessage :: jsstring
  nearestDouble :: "rat \<Rightarrow> rat"
  toFixed :: "number \<Rightarrow> nat \<Rightarrow> jsstring"

definition toUpperCase :: "runtime \<Rightarrow> jsstring \<Rightarrow> jsstring" where
  "toUpperCase rt s =
     (if list_all (\<lambda>c. c < 0x80) s
      then map (\<lambda>c. if isLowerAZ c then c - 0x20 else c) s
      else toUpperCaseUnicode rt s)"

text \<open>
  \<open>BigInt(s)\<close> on a string of decimal digits, the only strings the source passes to it
  (each call stands behind the test \<open>/^\d+$/\<close>): the digits are read from the left.
\<close>

definition digitValue :: "code_unit \<Rightarrow> int" where
  "digitValue c = uint c - 48"

definition BigInt_of_digits :: "jsstring \<Rightarrow> int" where
  "BigInt_of_digits s = foldl (\<lambda>acc c. 10 * acc + digitValue c) 0 s"

text \<open>
  The number a decimal numeral denotes, in the words of positional notation: the digit
  at position \<open>i\<close> from the left, of \<open>n\<close> digits, counts \<open>10 ^ (n - 1 - i)\<close> times.
\<close>

definition decimal_value :: "jsstring \<Rightarrow> int" where
  "decimal_value s =
     (\<Sum>i = 0..<length s. digitValue (s ! i) * 10 ^ (length s - 1 - i))"

text \<open>
  \<open>Number(s)\<close>: surrounding white space is dropped, the empty string is 0, a digit
  string below \<open>10 ^ 15\<close> is its value exactly (every such integer is a double), and the
  rest is the engine's.
\<close>

definition Number :: "runtime \<Rightarrow> jsstring \<Rightarrow> number" where
  "Number rt s =
     (let t = trim s in
      if t = [] then Finite 0
      else if list_all isDigit t \<and> length t \<le> 15 then Finite (of_int (BigInt_of_digits t))
      else stringToNumber rt t)"

text \<open>\<open>BigInt(n)\<close> on a number: a RangeError unless \<open>n\<close> is an integer.\<close>

definition BigInt_of_number :: "runtime \<Rightarrow> number \<Rightarrow> thrown + int" where
  "BigInt_of_number rt n =
     (case n of
        Finite q \<Rightarrow> if of_int \<lfloor>q\<rfloor> = q then Inr \<lfloor>q\<rfloor> else Inl (Error (rangeErrorMessage rt))
      | _ \<Rightarrow> Inl (Error (rangeErrorMessage rt)))"

section \<open>The launch form (page component)\<close>

record LaunchForm =
  name :: jsstring
  symbol :: jsstring
  decimals :: jsstring
  supply_str :: jsstring
  description :: jsstring
  metadataUrl :: jsstring
  website :: jsstring
  twitter :: jsstring
  telegram :: jsstring

text \<open>
  (The field \<open>supply\<close> of the source is \<open>supply_str\<close> here: \<open>supply\<close> is a
  reserved word of the proof language.)
\<close>

text \<open>A \<open>File\<close> as the program reads it: its name, its size in bytes, its MIME type.\<close>

record File =
  file_name :: jsstring
  file_size :: nat
  file_type :: jsstring

text \<open>
  \<open>FormErrors\<close> is an object with optional keys. Its entries are kept in insertion
  order, which \<open>Object.values(errors)[0]\<close> reads; an assignment to a key that is
  already there replaces the value in place (\<open>AList.update\<close>).
\<close>

datatype field = Name | Symbol | Decimals | Supply | Description | Image

type_synonym FormErrors = "(field \<times> jsstring) list"

definition DEFAULT_FORM :: LaunchForm where
  "DEFAULT_FORM =
     \<lparr>name = [], symbol = [], decimals = lit ''9'', supply_str = lit ''1000000000'',
      description = [], metadataUrl = [], website = [], twitter = [], telegram = []\<rparr>"

definition MAX_NAME_LENGTH :: nat where "MAX_NAME_LENGTH = 32"
definition MAX_SYMBOL_LENGTH :: nat where "MAX_SYMBOL_LENGTH = 10"
definition MAX_DESCRIPTION_LENGTH :: nat where "MAX_DESCRIPTION_LENGTH = 200"
definition MAX_IMAGE_SIZE_MB :: nat where "MAX_IMAGE_SIZE_MB = 5"
definition MAX_IMAGE_SIZE_BYTES :: nat where
  "MAX_IMAGE_SIZE_BYTES = MAX_IMAGE_SIZE_MB * 1024 * 1024"

text \<open>The unsigned 64-bit maximum that the specification names.\<close>

definition U64_MAX :: int where "U64_MAX = 2 ^ 64 - 1"

text \<open>
  \<open>toBigIntAmount(value, decimals)\<close>. \<open>BigInt(trimmed)\<close> is evaluated first and cannot
  throw behind the digit test; \<open>BigInt(decimals)\<close> and the power can.
\<close>

definition toBigIntAmount :: "runtime \<Rightarrow> jsstring \<Rightarrow> number \<Rightarrow> thrown + int" where
  "toBigIntAmount rt val decs =
     (let trimmed = trim val in
      if trimmed = [] then Inr 0
      else if \<not> digits_only trimmed
      then Inl (Error (lit ''Only whole numbers are supported for supply.''))
      else (case BigInt_of_number rt decs of
              Inl e \<Rightarrow> Inl e
            | Inr d \<Rightarrow>
                if d < 0 then Inl (Error (rangeErrorMessage rt))
                else Inr (BigInt_of_digits trimmed * 10 ^ nat d)))"

definition validTypes :: "jsstring list" where
  "validTypes = [lit ''image/jpeg'', lit ''image/png'', lit ''image/gif'', lit ''image/webp'']"

text \<open>
  \<open>validateForm(form, imageFile)\<close>. Each commented block of the source (name,
  symbol, decimals, supply, description, image) is a function from the error object
  before the block to the error object after it; \<open>validateForm\<close> runs them in the
  order of the source on the empty object. The template literals are written with the
  constants they interpolate (32, 10, 200, 5).
\<close>

definition name_validation :: "LaunchForm \<Rightarrow> FormErrors \<Rightarrow> FormErrors" where
  "name_validation form errors =
     (if trim (name form) = []
      then AList.update Name (lit ''Token name is required'') errors
      else if length (name form) > MAX_NAME_LENGTH
      then AList.update Name (lit ''Name must be 32 characters or less'') errors
      else if \<not> name_pattern (name form)
      then AList.update Name
             (lit ''Name can only contain letters, numbers, spaces, hyphens, and underscores'')
             errors
      else errors)"

definition symbol_validation :: "runtime \<Rightarrow> LaunchForm \<Rightarrow> FormErrors \<Rightarrow> FormErrors" where
  "symbol_validation rt form errors =
     (if trim (symbol form) = []
      then AList.update Symbol (lit ''Token symbol is required'') errors
      else if length (symbol form) > MAX_SYMBOL_LENGTH
      then AList.update Symbol (lit ''Symbol must be 10 characters or less'') errors
      else if \<not> symbol_pattern (toUpperCase rt (symbol form))
      then AList.update Symbol (lit ''Symbol can only contain letters and numbers'') errors
      else errors)"

definition decimals_validation :: "runtime \<Rightarrow> LaunchForm \<Rightarrow> FormErrors \<Rightarrow> FormErrors" where
  "decimals_validation rt form errors =
     (let decs = Number rt (decimals form) in
      if isNaN decs \<or> \<not> isInteger decs
      then AList.update Decimals (lit ''Decimals must be a whole number'') errors
      else if number_less decs (Finite 0) \<or> number_less (Finite 9) decs
      then AList.update Decimals (lit ''Decimals must be between 0 and 9'') errors
      else errors)"

definition supply_validation :: "LaunchForm \<Rightarrow> FormErrors \<Rightarrow> FormErrors" where
  "supply_validation form errors =
     (if trim (supply_str form) = []
      then AList.update Supply (lit ''Supply is required'') errors
      else if \<not> digits_only (trim (supply_str form))
      then AList.update Supply (lit ''Supply must be a whole number'') errors
      else if BigInt_of_digits (trim (supply_str form)) \<le> 0
      then AList.update Supply (lit ''Supply must be greater than 0'') errors
      else if BigInt_of_digits (trim (supply_str form))
                > BigInt_of_digits (lit ''18446744073709551615'')
      then AList.update Supply (lit ''Supply exceeds maximum allowed value'') errors
      else errors)"

definition description_validation :: "LaunchForm \<Rightarrow> FormErrors \<Rightarrow> FormErrors" where
  "description_validation form errors =
     (if length (description form) > MAX_DESCRIPTION_LENGTH
      then AList.update Description (lit ''Description must be 200 characters or less'') errors
      else errors)"

text \<open>The two image tests are separate statements: the second overwrites the first.\<close>

definition image_validation :: "File option \<Rightarrow> FormErrors \<Rightarrow> FormErrors" where
  "image_validation imageFile errors =
     (case imageFile of
        None \<Rightarrow> errors
      | Some f \<Rightarrow>
          (let errors =
                 (if file_size f > MAX_IMAGE_SIZE_BYTES
                  then AList.update Image (lit ''Image must be 5MB or less'') errors
                  else errors)
           in if file_type f \<notin> set validTypes
              then AList.update Image (lit ''Image must be JPEG, PNG, GIF, or WebP'') errors
              else errors))"

definition validateForm :: "runtime \<Rightarrow> LaunchForm \<Rightarrow> File option \<Rightarrow> FormErrors" where
  "validateForm rt form imageFile =
     (let errors = [];
          errors = name_validation form errors;
          errors = symbol_validation rt form errors;
          errors = decimals_validation rt form errors;
          errors = supply_validation form errors;
          errors = description_validation form errors;
          errors = image_validation imageFile errors
      in errors)"

text \<open>
  A runtime for evaluating examples: exact arithmetic in place of rounding. The examples
  below are ASCII and their decimals are short digit strings, so that its first two
  fields are never consulted, and no example reads the text that \<open>toFixed\<close> gives.
\<close>

definition plain_runtime :: runtime where
  "plain_runtime =
     \<lparr>toUpperCaseUnicode = (\<lambda>s. s), stringToNumber = (\<lambda>s. NaN),
      rangeErrorMessage = lit ''RangeError'',
      nearestDouble = (\<lambda>q. q), toFixed = (\<lambda>n d. lit ''0.0000'')\<rparr>"

text \<open>
  A form with the largest supply the validator admits, at the default nine decimals.
\<close>

definition max_supply_form :: LaunchForm where
  "max_supply_form =
     DEFAULT_FORM\<lparr>name := lit ''Token'', symbol := lit ''TKN'',
                  supply_str := lit ''18446744073709551615''\<rparr>"

section \<open>The transaction orchestrator (page component)\<close>

subsection \<open>Addresses, instructions and transactions of the SDK\<close>

text \<open>
  An address is known to this program by its base-58 text only. The two program
  addresses are constants of the token and metadata libraries.
\<close>

datatype pubkey = PublicKey jsstring

fun toBase58 :: "pubkey \<Rightarrow> jsstring" where
  "toBase58 (PublicKey s) = s"

definition TOKEN_PROGRAM_ID :: pubkey where
  "TOKEN_PROGRAM_ID = PublicKey (lit ''TokenkegQfeZyiNwAJbNbGKPFXCWuBvf9Ss623VQ5DA'')"

definition TOKEN_METADATA_PROGRAM_ID :: pubkey where
  "TOKEN_METADATA_PROGRAM_ID = PublicKey (lit ''metaqbxxUerdq28cj1RbAWkYQm3ybzjb6a8bt518x1s'')"

text \<open>\<open>MINT_SIZE\<close> of the token library, the bytes of a mint account.\<close>

definition MINT_SIZE :: nat where "MINT_SIZE = 82"

datatype TransactionSignature = TransactionSignature jsstring
datatype Blockhash = Blockhash jsstring

datatype AuthorityType = MintTokens | FreezeAccount

text \<open>
  The instructions the page builds, each with the arguments the source gives it, in the
  source's order:
  \<^item> \<open>CreateAccount fromPubkey newAccountPubkey space lamports programId\<close>;
  \<^item> \<open>InitializeMint mint decimals mintAuthority freezeAuthority\<close>;
  \<^item> \<open>CreateAssociatedTokenAccount payer associatedToken owner mint\<close>;
  \<^item> \<open>MintTo mint destination authority amount\<close>;
  \<^item> \<open>CreateMetadataAccountV3 metadata mint mintAuthority payer updateAuthority
       name symbol uri sellerFeeBasisPoints isMutable\<close> (the fields \<open>creators\<close>,
    \<open>collection\<close>, \<open>uses\<close> and \<open>collectionDetails\<close> are \<open>null\<close> in the source);
  \<^item> \<open>SetAuthority account currentAuthority authorityType newAuthority\<close>.
\<close>

datatype instruction =
    CreateAccount pubkey pubkey nat nat pubkey
  | InitializeMint pubkey number pubkey pubkey
  | CreateAssociatedTokenAccount pubkey pubkey pubkey pubkey
  | MintTo pubkey pubkey pubkey int
  | CreateMetadataAccountV3 pubkey pubkey pubkey pubkey pubkey jsstring jsstring jsstring nat bool
  | SetAuthority pubkey pubkey AuthorityType "pubkey option"

record Transaction =
  instructions :: "instruction list"
  recentBlockhash :: "Blockhash option"
  feePayer :: "pubkey option"

text \<open>
  The calls into the collaborators (RPC connection, wallet, SDK) that the sequence
  makes. \<open>SendTransaction tx signers\<close> is the wallet's \<open>sendTransaction\<close>, which asks
  the user to sign and submits; \<open>ConfirmTransaction\<close> carries the block hash and the
  last valid height when the source passes them.
\<close>

datatype call =
    GetMinimumBalanceForRentExemption nat
  | GetAssociatedTokenAddress pubkey pubkey
  | GetLatestBlockhash
  | SendTransaction Transaction "pubkey list"
  | ConfirmTransaction TransactionSignature "(Blockhash \<times> nat) option"
  | FindProgramAddress pubkey pubkey
  | RefreshBalance

text \<open>
  What the collaborators answer during one run, one field for each call site of
  \<open>createToken\<close>, named after the variable that receives the answer (and
  \<open>confirmation\<close> for an awaited \<open>confirmTransaction\<close>). Each answer is a
  value or a thrown value: a rejected signature request, a failed submission and a failed
  confirmation are thrown by \<open>sendTransaction\<close> and \<open>confirmTransaction\<close>.
  \<open>mintKeypair\<close> is the public key of \<open>Keypair.generate()\<close>.
\<close>

record collaborators =
  mintKeypair :: pubkey
  lamports_result :: "thrown + nat"
  ata_result :: "thrown + pubkey"
  latestBlockhash_result :: "thrown + (Blockhash \<times> nat)"
  signature_result :: "thrown + TransactionSignature"
  confirmation_result :: "thrown + unit"
  metadataPda_result :: "thrown + pubkey"
  metadataSig_result :: "thrown + TransactionSignature"
  metadataConfirmation_result :: "thrown + unit"
  revokeSig_result :: "thrown + TransactionSignature"
  revokeConfirmation_result :: "thrown + unit"

subsection \<open>The state of the page\<close>

datatype StatusType = StatusInfo | StatusSuccess | StatusError

text \<open>
  The React state that \<open>createToken\<close> writes, and \<open>calls\<close>, the collaborator calls made
  so far with what each one threw (\<open>None\<close> when it returned). The state setters of the
  source are the record updates of the same name.
\<close>

record page =
  status :: jsstring
  statusType :: StatusType
  mintAddress :: jsstring
  tokenAccount :: jsstring
  isLaunching :: bool
  currentStep :: nat
  formErrors :: FormErrors
  calls :: "(call \<times> thrown option) list"

definition initial_page :: page where
  "initial_page =
     \<lparr>status = [], statusType = StatusInfo, mintAddress = [], tokenAccount = [],
      isLaunching = False, currentStep = 0, formErrors = [], calls = []\<rparr>"

definition setStatusMessage :: "jsstring \<Rightarrow> StatusType \<Rightarrow> page \<Rightarrow> page" where
  "setStatusMessage message type s = s\<lparr>status := message, statusType := type\<rparr>"

definition setCurrentStep :: "nat \<Rightarrow> page \<Rightarrow> page" where
  "setCurrentStep n s = s\<lparr>currentStep := n\<rparr>"

definition setIsLaunching :: "bool \<Rightarrow> page \<Rightarrow> page" where
  "setIsLaunching b s = s\<lparr>isLaunching := b\<rparr>"

definition setFormErrors :: "FormErrors \<Rightarrow> page \<Rightarrow> page" where
  "setFormErrors errors s = s\<lparr>formErrors := errors\<rparr>"

definition setMintAddress :: "jsstring \<Rightarrow> page \<Rightarrow> page" where
  "setMintAddress a s = s\<lparr>mintAddress := a\<rparr>"

definition setTokenAccount :: "jsstring \<Rightarrow> page \<Rightarrow> page" where
  "setTokenAccount a s = s\<lparr>tokenAccount := a\<rparr>"

text \<open>
  What \<open>createToken\<close> closes over: \<open>publicKey\<close> of the wallet (\<open>null\<close> when none is
  connected), \<open>form\<close>, \<open>imageFile\<close> and \<open>walletBalance\<close> (\<open>null\<close> when no reading is
  available).
\<close>

record inputs =
  in_publicKey :: "pubkey option"
  in_form :: LaunchForm
  in_imageFile :: "File option"
  in_walletBalance :: "number option"

subsection \<open>Statements inside the \<open>try\<close> block\<close>

text \<open>
  A statement of the \<open>try\<close> block takes the rest of the block and the state, and gives
  the thrown value, if any, with the state at that point. \<open>await c r\<close> is a call \<open>c\<close>
  answered by \<open>r\<close>: it is recorded, and a thrown answer ends the block. \<open>attempt r\<close>
  is a computation of the page itself that may throw. \<open>perform f\<close> is a state setter.
\<close>

type_synonym block = "page \<Rightarrow> thrown option \<times> page"

definition await :: "call \<Rightarrow> thrown + 'a \<Rightarrow> ('a \<Rightarrow> block) \<Rightarrow> block" where
  "await c r rest s =
     (case r of
        Inl t \<Rightarrow> (Some t, s\<lparr>calls := calls s @ [(c, Some t)]\<rparr>)
      | Inr v \<Rightarrow> rest v (s\<lparr>calls := calls s @ [(c, None)]\<rparr>))"

definition attempt :: "thrown + 'a \<Rightarrow> ('a \<Rightarrow> block) \<Rightarrow> block" where
  "attempt r rest s = (case r of Inl t \<Rightarrow> (Some t, s) | Inr v \<Rightarrow> rest v s)"

definition perform :: "(page \<Rightarrow> page) \<Rightarrow> block \<Rightarrow> block" where
  "perform f rest s = rest (f s)"

definition finish :: block where
  "finish s = (None, s)"

subsection \<open>Estimated costs\<close>

text \<open>
  The four constants are the doubles nearest to their decimal literals, and
  \<open>TOTAL_ESTIMATED_COST\<close> is their sum from the left, each addition rounded. (The
  field \<open>tokenAccount\<close> of \<open>ESTIMATED_COSTS\<close> is \<open>tokenAccount_rent\<close> here, the page
  state having a \<open>tokenAccount\<close> of its own.)
\<close>

record costs =
  mintAccount :: rat
  tokenAccount_rent :: rat
  metadataAccount :: rat
  transactions :: rat

definition ESTIMATED_COSTS :: "runtime \<Rightarrow> costs" where
  "ESTIMATED_COSTS rt =
     \<lparr>mintAccount = nearestDouble rt 0.00145,
      tokenAccount_rent = nearestDouble rt 0.00204,
      metadataAccount = nearestDouble rt 0.01,
      transactions = nearestDouble rt 0.00015\<rparr>"

definition TOTAL_ESTIMATED_COST :: "runtime \<Rightarrow> number" where
  "TOTAL_ESTIMATED_COST rt =
     Finite (nearestDouble rt
       (nearestDouble rt
          (nearestDouble rt
             (mintAccount (ESTIMATED_COSTS rt) + tokenAccount_rent (ESTIMATED_COSTS rt))
           + metadataAccount (ESTIMATED_COSTS rt))
        + transactions (ESTIMATED_COSTS rt)))"

subsection \<open>\<open>createToken\<close>\<close>

text \<open>The three transactions, as the source assembles them.\<close>

definition createMintTx ::
  "pubkey \<Rightarrow> pubkey \<Rightarrow> nat \<Rightarrow> pubkey \<Rightarrow> number \<Rightarrow> int \<Rightarrow> Transaction" where
  "createMintTx publicKey mintKey lamports ata decs amount =
     \<lparr>instructions =
        [CreateAccount publicKey mintKey MINT_SIZE lamports TOKEN_PROGRAM_ID,
         InitializeMint mintKey decs publicKey publicKey,
         CreateAssociatedTokenAccount publicKey ata publicKey mintKey,
         MintTo mintKey ata publicKey amount],
      recentBlockhash = None, feePayer = None\<rparr>"

definition metadataTx ::
  "runtime \<Rightarrow> LaunchForm \<Rightarrow> pubkey \<Rightarrow> pubkey \<Rightarrow> pubkey \<Rightarrow> Transaction" where
  "metadataTx rt form publicKey mintKey metadataPda =
     \<lparr>instructions =
        [CreateMetadataAccountV3 metadataPda mintKey publicKey publicKey publicKey
           (trim (name form)) (toUpperCase rt (trim (symbol form))) (trim (metadataUrl form))
           0 False],
      recentBlockhash = None, feePayer = None\<rparr>"

definition revokeTx :: "pubkey \<Rightarrow> pubkey \<Rightarrow> Transaction" where
  "revokeTx publicKey mintKey =
     \<lparr>instructions =
        [SetAuthority mintKey publicKey MintTokens None,
         SetAuthority mintKey publicKey FreezeAccount None],
      recentBlockhash = None, feePayer = None\<rparr>"

text \<open>The statement \<open>if (form.metadataUrl.trim()) { ... }\<close>: step 3 of the sequence.\<close>

definition metadata_step ::
  "runtime \<Rightarrow> LaunchForm \<Rightarrow> pubkey \<Rightarrow> collaborators \<Rightarrow> block \<Rightarrow> block" where
  "metadata_step rt form publicKey net rest =
     (if trim (metadataUrl form) \<noteq> [] then
        perform (setCurrentStep 3) (
        perform (setStatusMessage (lit ''Step 3/4: Creating on-chain metadata...'') StatusInfo) (
        await (FindProgramAddress TOKEN_METADATA_PROGRAM_ID (mintKeypair net))
              (metadataPda_result net) (\<lambda>metadataPda.
        await (SendTransaction (metadataTx rt form publicKey (mintKeypair net) metadataPda) [])
              (metadataSig_result net) (\<lambda>metadataSig.
        await (ConfirmTransaction metadataSig None) (metadataConfirmation_result net) (\<lambda>_.
        rest)))))
      else rest)"

text \<open>
  Step 4 of the sequence, from \<open>setCurrentStep(4)\<close> to the end of the \<open>try\<close> block.
  \<open>refreshBalance()\<close> at its end is not awaited and catches its own errors: it is
  recorded as a call that cannot throw into the block.
\<close>

definition revocation_step :: "pubkey \<Rightarrow> collaborators \<Rightarrow> pubkey \<Rightarrow> block" where
  "revocation_step publicKey net ata =
     perform (setCurrentStep 4) (
     perform (setStatusMessage
                (lit ''Step 4/4: Revoking mint and freeze authorities...'') StatusInfo) (
     await (SendTransaction (revokeTx publicKey (mintKeypair net)) [])
           (revokeSig_result net) (\<lambda>revokeSig.
     await (ConfirmTransaction revokeSig None) (revokeConfirmation_result net) (\<lambda>_.
     perform (setMintAddress (toBase58 (mintKeypair net))) (
     perform (setTokenAccount (toBase58 ata)) (
     perform (setCurrentStep 5) (
     perform (setStatusMessage
                (lit ''Token created successfully! Mint and freeze authorities have been revoked.'')
                StatusSuccess) (
     await RefreshBalance (Inr ()) (\<lambda>_.
     finish)))))))))"

text \<open>
  The \<open>try\<close> block: steps 1 and 2 written out, then the metadata statement and step 4.
\<close>

definition try_block ::
  "runtime \<Rightarrow> LaunchForm \<Rightarrow> pubkey \<Rightarrow> collaborators \<Rightarrow> block" where
  "try_block rt form publicKey net =
     (let decs = Number rt (decimals form) in
      await (GetMinimumBalanceForRentExemption MINT_SIZE) (lamports_result net) (\<lambda>lamports.
      await (GetAssociatedTokenAddress (mintKeypair net) publicKey) (ata_result net) (\<lambda>ata.
      attempt (toBigIntAmount rt (supply_str form) decs) (\<lambda>amount.
      perform (setCurrentStep 2) (
      perform (setStatusMessage
                 (lit ''Step 2/4: Please sign the transaction in your wallet...'') StatusInfo) (
      await GetLatestBlockhash (latestBlockhash_result net) (\<lambda>(blockhash, lastValidBlockHeight).
      await (SendTransaction
               ((createMintTx publicKey (mintKeypair net) lamports ata decs amount)
                  \<lparr>recentBlockhash := Some blockhash, feePayer := Some publicKey\<rparr>)
               [mintKeypair net])
            (signature_result net) (\<lambda>signature.
      perform (setStatusMessage (lit ''Step 2/4: Confirming transaction...'') StatusInfo) (
      await (ConfirmTransaction signature (Some (blockhash, lastValidBlockHeight)))
            (confirmation_result net) (\<lambda>_.
      metadata_step rt form publicKey net (
      revocation_step publicKey net ata)))))))))))"

text \<open>The \<open>catch\<close> clause: the message of an \<open>Error\<close>, or the fallback text.\<close>

definition catch_message :: "thrown \<Rightarrow> jsstring" where
  "catch_message e =
     (case e of
        Error message \<Rightarrow> message
      | NonError \<Rightarrow> lit ''Token creation failed. Please try again.'')"

definition catch_clause :: "thrown \<Rightarrow> page \<Rightarrow> page" where
  "catch_clause e s = setCurrentStep 0 (setStatusMessage (catch_message e) StatusError s)"

definition insufficient_balance_message :: "runtime \<Rightarrow> number \<Rightarrow> jsstring" where
  "insufficient_balance_message rt balance =
     lit ''Insufficient balance. You need at least ~'' @ toFixed rt (TOTAL_ESTIMATED_COST rt) 4
     @ lit '' SOL. Current balance: '' @ toFixed rt balance 4 @ lit '' SOL''"

text \<open>
  \<open>createToken\<close>: three guarded returns, then the \<open>try\<close> block with its \<open>catch\<close> and
  \<open>finally\<close>. \<open>Object.keys(errors).length > 0\<close> is \<open>errors \<noteq> []\<close>, and
  \<open>Object.values(errors)[0]\<close> is the value of the first entry.
\<close>

definition createToken :: "runtime \<Rightarrow> inputs \<Rightarrow> collaborators \<Rightarrow> page \<Rightarrow> page" where
  "createToken rt inp net s =
     (case in_publicKey inp of
        None \<Rightarrow> setStatusMessage (lit ''Please connect your Phantom wallet first.'') StatusError s
      | Some pk \<Rightarrow>
          (let errors = validateForm rt (in_form inp) (in_imageFile inp) in
           if errors \<noteq> [] then
             (let s = setFormErrors errors s;
                  firstError = snd (hd errors)
              in setStatusMessage
                   (if firstError \<noteq> [] then firstError else lit ''Please fix the form errors.'')
                   StatusError s)
           else if (case in_walletBalance inp of
                      None \<Rightarrow> False
                    | Some balance \<Rightarrow> number_less balance (TOTAL_ESTIMATED_COST rt))
           then setStatusMessage
                  (insufficient_balance_message rt (the (in_walletBalance inp))) StatusError s
           else
             (let s = setIsLaunching True s;
                  s = setCurrentStep 1 s;
                  s = setStatusMessage (lit ''Step 1/4: Creating mint account...'') StatusInfo s;
                  (caught, s) = try_block rt (in_form inp) pk net s;
                  s = (case caught of None \<Rightarrow> s | Some e \<Rightarrow> catch_clause e s)
              in setIsLaunching False s)))"

subsection \<open>Vocabulary for the properties of \<open>createToken\<close>\<close>

text \<open>
  The state in which \<open>createToken\<close> enters its \<open>try\<close> block: the three setters that
  precede it.
\<close>

definition prepared :: "page \<Rightarrow> page" where
  "prepared s =
     setStatusMessage (lit ''Step 1/4: Creating mint account...'') StatusInfo
       (setCurrentStep 1 (setIsLaunching True s))"

text \<open>
  The gates of the specification: a wallet key is present, the validator returns the
  empty error object, and the balance, when a reading is available, is not below the
  estimated total.
\<close>

definition gates :: "runtime \<Rightarrow> inputs \<Rightarrow> bool" where
  "gates rt inp =
     (in_publicKey inp \<noteq> None
      \<and> validateForm rt (in_form inp) (in_imageFile inp) = []
      \<and> (case in_walletBalance inp of
            None \<Rightarrow> True
          | Some balance \<Rightarrow> \<not> number_less balance (TOTAL_ESTIMATED_COST rt)))"

text \<open>
  The calls that a run adds to the record, and whether a recorded call returned. A block
  is orderly from a state when it only adds calls, and when either it ends normally and
  every call it added returned, or it throws \<open>t\<close> and the last call it added is the one
  that threw \<open>t\<close>, every earlier one having returned.
\<close>

definition new_calls :: "page \<Rightarrow> page \<Rightarrow> (call \<times> thrown option) list" where
  "new_calls s s' = drop (length (calls s)) (calls s')"

definition returned :: "call \<times> thrown option \<Rightarrow> bool" where
  "returned e = (snd e = None)"

definition orderly_at :: "block \<Rightarrow> page \<Rightarrow> bool" where
  "orderly_at b s =
     (case b s of
        (caught, s') \<Rightarrow>
          take (length (calls s)) (calls s') = calls s
          \<and> (case caught of
                None \<Rightarrow> list_all returned (new_calls s s')
              | Some t \<Rightarrow> new_calls s s' \<noteq> [] \<and> snd (last (new_calls s s')) = Some t
                          \<and> list_all returned (butlast (new_calls s s'))))"

definition thrown_of :: "thrown + 'a \<Rightarrow> thrown option" where
  "thrown_of r = (case r of Inl t \<Rightarrow> Some t | Inr v \<Rightarrow> None)"

text \<open>
  What steps 3 and 4 are to record, call by call, each call with what it threw: a step
  stops at its first call that throws.
\<close>

definition metadata_log ::
  "runtime \<Rightarrow> LaunchForm \<Rightarrow> pubkey \<Rightarrow> collaborators \<Rightarrow> (call \<times> thrown option) list" where
  "metadata_log rt form publicKey net =
     (FindProgramAddress TOKEN_METADATA_PROGRAM_ID (mintKeypair net),
      thrown_of (metadataPda_result net))
     # (case metadataPda_result net of
          Inl t \<Rightarrow> []
        | Inr metadataPda \<Rightarrow>
            (SendTransaction (metadataTx rt form publicKey (mintKeypair net) metadataPda) [],
             thrown_of (metadataSig_result net))
            # (case metadataSig_result net of
                 Inl t \<Rightarrow> []
               | Inr metadataSig \<Rightarrow>
                   [(ConfirmTransaction metadataSig None,
                     thrown_of (metadataConfirmation_result net))]))"

definition metadata_confirmed :: "collaborators \<Rightarrow> bool" where
  "metadata_confirmed net =
     (thrown_of (metadataPda_result net) = None \<and> thrown_of (metadataSig_result net) = None
      \<and> thrown_of (metadataConfirmation_result net) = None)"

definition revocation_log :: "pubkey \<Rightarrow> collaborators \<Rightarrow> (call \<times> thrown option) list" where
  "revocation_log publicKey net =
     (SendTransaction (revokeTx publicKey (mintKeypair net)) [], thrown_of (revokeSig_result net))
     # (case revokeSig_result net of
          Inl t \<Rightarrow> []
        | Inr revokeSig \<Rightarrow>
            (ConfirmTransaction revokeSig None, thrown_of (revokeConfirmation_result net))
            # (case revokeConfirmation_result net of
                 Inl t \<Rightarrow> []
               | Inr u \<Rightarrow> [(RefreshBalance, None)]))"

definition revocation_confirmed :: "collaborators \<Rightarrow> bool" where
  "revocation_confirmed net =
     (thrown_of (revokeSig_result net) = None
      \<and> thrown_of (revokeConfirmation_result net) = None)"

text \<open>Collaborators, inputs and a wallet for the examples: every call returns.\<close>

definition example_wallet :: pubkey where
  "example_wallet = PublicKey (lit ''Wa11et'')"

definition example_form :: LaunchForm where
  "example_form = DEFAULT_FORM\<lparr>name := lit ''Token'', symbol := lit ''TKN''\<rparr>"

definition example_inputs :: inputs where
  "example_inputs =
     \<lparr>in_publicKey = Some example_wallet, in_form = example_form, in_imageFile = None,
      in_walletBalance = None\<rparr>"

definition obliging :: collaborators where
  "obliging =
     \<lparr>mintKeypair = PublicKey (lit ''Mint''),
      lamports_result = Inr 1461600,
      ata_result = Inr (PublicKey (lit ''Ata'')),
      latestBlockhash_result = Inr (Blockhash (lit ''Hash''), 100),
      signature_result = Inr (TransactionSignature (lit ''Sig1'')),
      confirmation_result = Inr (),
      metadataPda_result = Inr (PublicKey (lit ''Pda'')),
      metadataSig_result = Inr (TransactionSignature (lit ''Sig2'')),
      metadataConfirmation_result = Inr (),
      revokeSig_result = Inr (TransactionSignature (lit ''Sig3'')),
      revokeConfirmation_result = Inr ()\<rparr>"

text \<open>
  What steps 1 and 2 record when every call returns: the rent query, the derivation of
  the associated token account, the block hash query, the submission of the mint
  transaction and its confirmation.
\<close>

definition mint_log ::
  "pubkey \<Rightarrow> collaborators \<Rightarrow> nat \<Rightarrow> pubkey \<Rightarrow> Blockhash \<times> nat \<Rightarrow> TransactionSignature
   \<Rightarrow> number \<Rightarrow> int \<Rightarrow> (call \<times> thrown option) list" where
  "mint_log pk net l tokenAta bh sg decs a =
     [(GetMinimumBalanceForRentExemption MINT_SIZE, None),
      (GetAssociatedTokenAddress (mintKeypair net) pk, None),
      (GetLatestBlockhash, None),
      (SendTransaction
         ((createMintTx pk (mintKeypair net) l tokenAta decs a)
            \<lparr>recentBlockhash := Some (fst bh), feePayer := Some pk\<rparr>)
         [mintKeypair net], None),
      (ConfirmTransaction sg (Some bh), None)]"

text \<open>
  A wallet whose user rejects the first signature request, inputs without a wallet,
  inputs with a balance of 0.01 SOL, and inputs with a metadata URI.
\<close>

definition rejecting :: collaborators where
  "rejecting = obliging\<lparr>signature_result := Inl (Error (lit ''User rejected the request.''))\<rparr>"

definition rejected_submission :: call where
  "rejected_submission =
     SendTransaction
       ((createMintTx example_wallet (PublicKey (lit ''Mint'')) 1461600 (PublicKey (lit ''Ata''))
           (Finite 9) 1000000000000000000)
          \<lparr>recentBlockhash := Some (Blockhash (lit ''Hash'')), feePayer := Some example_wallet\<rparr>)
       [PublicKey (lit ''Mint'')]"

definition disconnected_inputs :: inputs where
  "disconnected_inputs = example_inputs\<lparr>in_publicKey := None\<rparr>"

definition underfunded_inputs :: inputs where
  "underfunded_inputs = example_inputs\<lparr>in_walletBalance := Some (Finite 0.01)\<rparr>"

definition inputs_with_uri :: inputs where
  "inputs_with_uri =
     example_inputs\<lparr>in_form := example_form\<lparr>metadataUrl := lit ''ipfs://meta''\<rparr>\<rparr>"

text \<open>
  The inputs of a run on \<open>max_supply_form\<close>, and the mint transaction that such a run
  submits to the collaborators of the examples.
\<close>

definition max_supply_inputs :: inputs where
  "max_supply_inputs = example_inputs\<lparr>in_form := max_supply_form\<rparr>"

definition max_supply_mint_tx :: Transaction where
  "max_supply_mint_tx =
     (createMintTx example_wallet (PublicKey (lit ''Mint'')) 1461600 (PublicKey (lit ''Ata''))
        (Finite 9) (18446744073709551615 * 10 ^ 9))
       \<lparr>recentBlockhash := Some (Blockhash (lit ''Hash'')), feePayer := Some example_wallet\<rparr>"

section \<open>The upload endpoint (\<open>app/api/upload/route.ts\<close>)\<close>

text \<open>
  The route has its own \<open>MAX_NAME_LENGTH\<close>, \<open>MAX_SYMBOL_LENGTH\<close> and
  \<open>MAX_DESCRIPTION_LENGTH\<close>, with the values of the page's: the definitions above stand
  for both.
\<close>

definition PINATA_FILE_ENDPOINT :: jsstring where
  "PINATA_FILE_ENDPOINT = lit ''https://api.pinata.cloud/pinning/pinFileToIPFS''"

definition PINATA_JSON_ENDPOINT :: jsstring where
  "PINATA_JSON_ENDPOINT = lit ''https://api.pinata.cloud/pinning/pinJSONToIPFS''"

definition MAX_FILE_SIZE :: nat where
  "MAX_FILE_SIZE = 5 * 1024 * 1024"

definition ALLOWED_TYPES :: "jsstring list" where
  "ALLOWED_TYPES = [lit ''image/jpeg'', lit ''image/png'', lit ''image/gif'', lit ''image/webp'']"

text \<open>
  JSON values, as far as the route builds them. An object keeps its keys in insertion
  order; the keys are the identifiers of the source.
\<close>

datatype json =
    JString jsstring
  | JBool bool
  | JArray "json list"
  | JObject "(string \<times> json) list"

text \<open>The three variables of \<open>process.env\<close> that the route reads (\<open>None\<close>: not set).\<close>

record environment =
  PINATA_JWT :: "jsstring option"
  PINATA_API_KEY :: "jsstring option"
  PINATA_API_SECRET :: "jsstring option"

text \<open>
  \<open>process.env.X?.trim()\<close> is \<open>map_option trim\<close>, and such a value is truthy when it is
  a string that is not empty.
\<close>

definition truthy :: "jsstring option \<Rightarrow> bool" where
  "truthy v = (case v of None \<Rightarrow> False | Some s \<Rightarrow> s \<noteq> [])"

definition getPinataAuthHeaders :: "environment \<Rightarrow> thrown + (string \<times> jsstring) list" where
  "getPinataAuthHeaders env =
     (let jwt = map_option trim (PINATA_JWT env);
          apiKey = map_option trim (PINATA_API_KEY env);
          apiSecret = map_option trim (PINATA_API_SECRET env)
      in if truthy apiKey \<and> truthy apiSecret
         then Inr [(''pinata_api_key'', the apiKey), (''pinata_secret_api_key'', the apiSecret)]
         else if truthy jwt
         then Inr [(''Authorization'', lit ''Bearer '' @ the jwt)]
         else Inl (Error (lit ''No Pinata credentials configured'')))"

text \<open>
  An outbound \<open>fetch\<close> (always a POST): the URL, the headers, and the body, which is a
  multipart form with one file under a file name, or a JSON text (kept as the value that
  \<open>JSON.stringify\<close> receives).
\<close>

datatype payload = FileBody File jsstring | JsonBody json

record outbound =
  url :: jsstring
  headers :: "(string \<times> jsstring) list"
  payload :: payload

text \<open>
  What the route reads of a response of the pinning service: \<open>ok\<close>, the result of
  \<open>text()\<close>, and of \<open>json()\<close> the field \<open>IpfsHash\<close> (\<open>None\<close>: absent); both reads can
  throw. \<open>pinning\<close> is the service and the network: an answer or a thrown value for each
  outbound request.
\<close>

record response =
  ok :: bool
  text_result :: "thrown + jsstring"
  json_result :: "thrown + jsstring option"

type_synonym pinning = "outbound \<Rightarrow> thrown + response"

text \<open>
  A helper of the route gives its result, a returned value or a thrown one, and the
  outbound requests it made. (\<open>console.error\<close> writes to the local log and is left out.)
\<close>

definition read_hash :: "outbound \<Rightarrow> jsstring \<Rightarrow> thrown + response \<Rightarrow> (thrown + jsstring) \<times> outbound list" where
  "read_hash req failure fetched =
     (case fetched of
        Inl t \<Rightarrow> (Inl t, [req])
      | Inr response \<Rightarrow>
          if \<not> ok response then
            (case text_result response of
               Inl t \<Rightarrow> (Inl t, [req])
             | Inr text \<Rightarrow> (Inl (Error failure), [req]))
          else
            (case json_result response of
               Inl t \<Rightarrow> (Inl t, [req])
             | Inr data \<Rightarrow>
                 if \<not> truthy data
                 then (Inl (Error (lit ''IPFS upload failed - no hash returned'')), [req])
                 else (Inr (the data), [req])))"

definition uploadFileToPinata ::
  "environment \<Rightarrow> pinning \<Rightarrow> File \<Rightarrow> (thrown + jsstring) \<times> outbound list" where
  "uploadFileToPinata env fetch file =
     (case getPinataAuthHeaders env of
        Inl t \<Rightarrow> (Inl t, [])
      | Inr authHeaders \<Rightarrow>
          (let req = \<lparr>url = PINATA_FILE_ENDPOINT, headers = authHeaders,
                      payload = FileBody file
                        (if file_name file \<noteq> [] then file_name file else lit ''token-image'')\<rparr>
           in read_hash req (lit ''Failed to upload image to IPFS'') (fetch req)))"

definition uploadJsonToPinata ::
  "environment \<Rightarrow> pinning \<Rightarrow> json \<Rightarrow> (thrown + jsstring) \<times> outbound list" where
  "uploadJsonToPinata env fetch metadata =
     (case getPinataAuthHeaders env of
        Inl t \<Rightarrow> (Inl t, [])
      | Inr authHeaders \<Rightarrow>
          (let req = \<lparr>url = PINATA_JSON_ENDPOINT,
                      headers = authHeaders @ [(''Content-Type'', lit ''application/json'')],
                      payload = JsonBody metadata\<rparr>
           in read_hash req (lit ''Failed to upload metadata to IPFS'') (fetch req)))"

text \<open>
  An entry of the incoming multipart form is a string or a file; \<open>formData.get\<close> gives
  the first entry under a name, or \<open>null\<close>. \<open>String(formData.get(k) ?? "")\<close> is the
  string itself, the empty string for \<open>null\<close>, and \<open>"[object File]"\<close> for a file.
\<close>

datatype entry = Text jsstring | Blob File

type_synonym FormData = "(jsstring \<times> entry) list"

definition String_of_entry :: "entry option \<Rightarrow> jsstring" where
  "String_of_entry v =
     (case v of None \<Rightarrow> [] | Some (Text s) \<Rightarrow> s | Some (Blob f) \<Rightarrow> lit ''[object File]'')"

definition text_field :: "FormData \<Rightarrow> string \<Rightarrow> jsstring" where
  "text_field formData k = trim (String_of_entry (map_of formData (lit k)))"

record NextResponse =
  status_code :: nat
  json_body :: json

definition error_response :: "jsstring \<Rightarrow> nat \<Rightarrow> NextResponse" where
  "error_response message code =
     \<lparr>status_code = code, json_body = JObject [(''error'', JString message)]\<rparr>"

text \<open>The \<open>catch\<close> clause of \<open>POST\<close>.\<close>

definition upload_failed :: "thrown \<Rightarrow> NextResponse" where
  "upload_failed e =
     error_response
       (case e of Error message \<Rightarrow> message | NonError \<Rightarrow> lit ''Upload failed. Please try again.'')
       500"

text \<open>
  The object \<open>metadata\<close> of \<open>POST\<close>, with the \<open>delete\<close> that follows it. A spread
  \<open>...(v && {k: v})\<close> adds the key when \<open>v\<close> is not empty. (The array \<open>externalLinks\<close>
  of the source is built and never read.)
\<close>

definition spread :: "jsstring \<Rightarrow> string \<Rightarrow> (string \<times> json) list" where
  "spread v k = (if v \<noteq> [] then [(k, JString v)] else [])"

definition metadata_object ::
  "runtime \<Rightarrow> jsstring \<Rightarrow> jsstring \<Rightarrow> jsstring \<Rightarrow> jsstring \<Rightarrow> File \<Rightarrow>
   jsstring \<Rightarrow> jsstring \<Rightarrow> jsstring \<Rightarrow> (string \<times> json) list" where
  "metadata_object rt nm symb desc imageUrl image_file web tw tg =
     (let metadata =
            [(''name'', JString nm),
             (''symbol'', JString (toUpperCase rt symb)),
             (''description'', JString desc),
             (''image'', JString imageUrl),
             (''attributes'', JArray []),
             (''properties'',
                JObject [(''files'',
                            JArray [JObject [(''uri'', JString imageUrl),
                                             (''type'', JString (file_type image_file))]]),
                         (''category'', JString (lit ''image''))])]
            @ spread web ''external_url''
            @ [(''extensions'',
                  JObject (spread web ''website'' @ spread tw ''twitter'' @ spread tg ''telegram''))]
      in if map_of metadata ''extensions'' = Some (JObject [])
         then AList.delete ''extensions'' metadata
         else metadata)"

text \<open>
  In \<open>metadata_object\<close> and \<open>POST\<close> the variables \<open>name\<close>, \<open>symbol\<close>,
  \<open>description\<close>, \<open>image\<close>, \<open>website\<close>, \<open>twitter\<close> and \<open>telegram\<close> of the source
  are \<open>nm\<close>, \<open>symb\<close>, \<open>desc\<close>, \<open>image_file\<close>, \<open>web\<close>, \<open>tw\<close> and \<open>tg\<close>: the
  longer names are fields of the form above.
\<close>

text \<open>
  \<open>POST(request)\<close>: the response and the outbound requests made, given the environment,
  the pinning service and what \<open>request.formData()\<close> gives.
\<close>

definition POST ::
  "runtime \<Rightarrow> environment \<Rightarrow> pinning \<Rightarrow> thrown + FormData \<Rightarrow> NextResponse \<times> outbound list" where
  "POST rt env fetch request =
     (let hasJwt = truthy (map_option trim (PINATA_JWT env));
          hasApiKey = (truthy (map_option trim (PINATA_API_KEY env))
                       \<and> truthy (map_option trim (PINATA_API_SECRET env)))
      in
      if \<not> hasJwt \<and> \<not> hasApiKey then
        (error_response (lit ''Server configuration error: Missing Pinata credentials.'') 500, [])
      else
        (case request of
           Inl t \<Rightarrow> (upload_failed t, [])
         | Inr formData \<Rightarrow>
             (let nm = text_field formData ''name'';
                  symb = text_field formData ''symbol'';
                  desc = text_field formData ''description'';
                  web = text_field formData ''website'';
                  tw = text_field formData ''twitter'';
                  tg = text_field formData ''telegram''
              in
              case map_of formData (lit ''image'') of
                Some (Blob image_file) \<Rightarrow>
                  if file_size image_file > MAX_FILE_SIZE then
                    (error_response (lit ''Image too large. Maximum size is 5MB.'') 400, [])
                  else if file_type image_file \<notin> set ALLOWED_TYPES then
                    (error_response
                       (lit ''Invalid image format. Allowed: JPEG, PNG, GIF, WebP.'') 400, [])
                  else if nm = [] then
                    (error_response (lit ''Token name is required.'') 400, [])
                  else if length nm > MAX_NAME_LENGTH then
                    (error_response (lit ''Token name must be 32 characters or less.'') 400, [])
                  else if symb = [] then
                    (error_response (lit ''Token symbol is required.'') 400, [])
                  else if length symb > MAX_SYMBOL_LENGTH then
                    (error_response (lit ''Symbol must be 10 characters or less.'') 400, [])
                  else if length desc > MAX_DESCRIPTION_LENGTH then
                    (error_response (lit ''Description must be 200 characters or less.'') 400, [])
                  else
                    (case uploadFileToPinata env fetch image_file of
                       (Inl t, sent) \<Rightarrow> (upload_failed t, sent)
                     | (Inr imageCid, sent) \<Rightarrow>
                         (let imageUrl = lit ''https://gateway.pinata.cloud/ipfs/'' @ imageCid;
                              metadata = metadata_object rt nm symb desc imageUrl image_file web tw tg
                          in case uploadJsonToPinata env fetch (JObject metadata) of
                               (Inl t, sent') \<Rightarrow> (upload_failed t, sent @ sent')
                             | (Inr metadataCid, sent') \<Rightarrow>
                                 (\<lparr>status_code = 200,
                                   json_body =
                                     JObject
                                       [(''success'', JBool True),
                                        (''imageUrl'', JString imageUrl),
                                        (''metadataUrl'',
                                           JString (lit ''https://gateway.pinata.cloud/ipfs/''
                                                    @ metadataCid))]\<rparr>,
                                  sent @ sent')))
              | _ \<Rightarrow> (error_response (lit ''Please provide an image file.'') 400, []))))"


subsection \<open>Vocabulary for the properties of the endpoint\<close>

text \<open>
  Credentials are configured when, after trimming, there is a token or a complete pair
  of key and secret.
\<close>

definition credentials_configured :: "environment \<Rightarrow> bool" where
  "credentials_configured env =
     (truthy (map_option trim (PINATA_JWT env))
      \<or> (truthy (map_option trim (PINATA_API_KEY env))
          \<and> truthy (map_option trim (PINATA_API_SECRET env))))"

text \<open>
  The validation rules in the words of the specification, on the fields as the route
  reads them: the image is absent (or is not a file), is larger than 5 MB, or is of a
  type outside the four accepted ones; the name is empty or longer than 32 characters;
  the symbol is empty or longer than 10 characters; the description is longer than 200
  characters.
\<close>

definition validation_rule_fails :: "FormData \<Rightarrow> bool" where
  "validation_rule_fails formData =
     (case map_of formData (lit ''image'') of
        Some (Blob f) \<Rightarrow>
          file_size f > 5 * 1024 * 1024
          \<or> file_type f \<notin> set [lit ''image/jpeg'', lit ''image/png'', lit ''image/gif'',
                                 lit ''image/webp'']
          \<or> text_field formData ''name'' = []
          \<or> length (text_field formData ''name'') > 32
          \<or> text_field formData ''symbol'' = []
          \<or> length (text_field formData ''symbol'') > 10
          \<or> length (text_field formData ''description'') > 200
      | _ \<Rightarrow> True)"

text \<open>
  Reading a response body: the message of an error body \<open>{error: message}\<close>, and the
  two URLs of a success body \<open>{success: true, imageUrl, metadataUrl}\<close>.
\<close>

fun error_message :: "json \<Rightarrow> jsstring option" where
  "error_message (JObject [(k, JString message)]) = (if k = ''error'' then Some message else None)"
| "error_message _ = None"


text \<open>
  The field \<open>extensions\<close> of a metadata document (\<open>None\<close>: the document has no such
  key), and the social links in the words of the specification: of the three keys, in
  their order, those whose value is not empty, each with its value.
\<close>

fun extensions_of :: "json \<Rightarrow> json option" where
  "extensions_of (JObject entries) = map_of entries ''extensions''"
| "extensions_of _ = None"

definition social_links :: "jsstring \<Rightarrow> jsstring \<Rightarrow> jsstring \<Rightarrow> (string \<times> json) list" where
  "social_links web tw tg =
     map (\<lambda>(k, v). (k, JString v))
       (filter (\<lambda>(k, v). v \<noteq> []) [(''website'', web), (''twitter'', tw), (''telegram'', tg)])"

text \<open>
  The gateway URL of a content identifier, and the metadata document that \<open>POST\<close>
  builds for a form, an image file and the identifier of the pinned image.
\<close>

definition gateway_url :: "jsstring \<Rightarrow> jsstring" where
  "gateway_url cid = lit ''https://gateway.pinata.cloud/ipfs/'' @ cid"

definition metadata_document :: "runtime \<Rightarrow> FormData \<Rightarrow> File \<Rightarrow> jsstring \<Rightarrow> json" where
  "metadata_document rt formData f imageCid =
     JObject (metadata_object rt (text_field formData ''name'') (text_field formData ''symbol'')
                (text_field formData ''description'') (gateway_url imageCid) f
                (text_field formData ''website'') (text_field formData ''twitter'')
                (text_field formData ''telegram''))"


text \<open>Environments, a pinning service and requests for the examples.\<close>

definition no_credentials :: environment where
  "no_credentials = \<lparr>PINATA_JWT = None, PINATA_API_KEY = Some (lit ''key''),
                      PINATA_API_SECRET = Some (lit ''  '')\<rparr>"

definition token_environment :: environment where
  "token_environment = \<lparr>PINATA_JWT = Some (lit ''jwt''), PINATA_API_KEY = None,
                         PINATA_API_SECRET = None\<rparr>"

definition pinning_ok :: pinning where
  "pinning_ok req = Inr \<lparr>ok = True, text_result = Inr [], json_result = Inr (Some (lit ''Qm''))\<rparr>"



definition example_image :: File where
  "example_image = \<lparr>file_name = lit ''logo.png'', file_size = 1024, file_type = lit ''image/png''\<rparr>"

definition example_request :: FormData where
  "example_request =
     [(lit ''image'', Blob example_image), (lit ''name'', Text (lit ''Token'')),
      (lit ''symbol'', Text (lit ''tkn'')), (lit ''website'', Text (lit '' a.io '')),
      (lit ''twitter'', Text (lit '' ''))]"

definition plain_request :: FormData where
  "plain_request =
     [(lit ''image'', Blob example_image), (lit ''name'', Text (lit ''Token'')),
      (lit ''symbol'', Text (lit ''tkn''))]"


definition example_file_request :: outbound where
  "example_file_request =
     \<lparr>url = PINATA_FILE_ENDPOINT,
      headers = [(''Authorization'', lit ''Bearer '' @ lit ''jwt'')],
      payload = FileBody example_image (lit ''logo.png'')\<rparr>"

definition example_json_request :: outbound where
  "example_json_request =
     \<lparr>url = PINATA_JSON_ENDPOINT,
      headers = [(''Authorization'', lit ''Bearer '' @ lit ''jwt''),
                 (''Content-Type'', lit ''application/json'')],
      payload = JsonBody (metadata_document plain_runtime example_request example_image (lit ''Qm''))\<rparr>"

definition plain_json_request :: outbound where
  "plain_json_request =
     \<lparr>url = PINATA_JSON_ENDPOINT,
      headers = [(''Authorization'', lit ''Bearer '' @ lit ''jwt''),
                 (''Content-Type'', lit ''application/json'')],
      payload = JsonBody (metadata_document plain_runtime plain_request example_image (lit ''Qm''))\<rparr>"

section \<open>Properties of the form functions\<close>

lemma BigInt_of_digits_snoc:
  "BigInt_of_digits (s @ [c]) = 10 * BigInt_of_digits s + digitValue c"
  by (simp add: BigInt_of_digits_def)

lemma decimal_value_snoc:
  "decimal_value (s @ [c]) = 10 * decimal_value s + digitValue c"
proof -
  have "(\<Sum>i = 0..<length s. digitValue ((s @ [c]) ! i) * 10 ^ (length s - i))
        = (\<Sum>i = 0..<length s. 10 * (digitValue (s ! i) * 10 ^ (length s - 1 - i)))"
  proof (rule sum.cong)
    fix i assume "i \<in> {0..<length s}"
    then have i: "i < length s" by simp
    then have "length s - i = Suc (length s - 1 - i)" by simp
    then show "digitValue ((s @ [c]) ! i) * 10 ^ (length s - i)
               = 10 * (digitValue (s ! i) * 10 ^ (length s - 1 - i))"
      using i by (simp add: nth_append)
  qed simp
  then show ?thesis
    by (simp add: decimal_value_def sum_distrib_left)
qed

lemma BigInt_of_digits_decimal_value: "BigInt_of_digits s = decimal_value s"
proof (induction s rule: rev_induct)
  case Nil
  show ?case by (simp add: BigInt_of_digits_def decimal_value_def)
next
  case (snoc c s)
  then show ?case by (simp add: BigInt_of_digits_snoc decimal_value_snoc)
qed

subsection \<open>Trimming\<close>

lemma isDigit_not_isWhiteSpace: "isDigit c \<Longrightarrow> \<not> isWhiteSpace c"
  unfolding isDigit_def isWhiteSpace_def
  by (auto simp: word_le_nat_alt)

lemma dropWhile_none: "list_all (\<lambda>c. \<not> P c) s \<Longrightarrow> dropWhile P s = s"
  by (cases s) auto

lemma trim_digits: "list_all isDigit s \<Longrightarrow> trim s = s"
proof -
  assume "list_all isDigit s"
  then have lead: "list_all (\<lambda>c. \<not> isWhiteSpace c) s"
    by (simp add: list_all_iff isDigit_not_isWhiteSpace)
  then have trail: "list_all (\<lambda>c. \<not> isWhiteSpace c) (rev s)"
    by (simp add: list_all_iff)
  show ?thesis
    unfolding trim_def by (simp add: dropWhile_none[OF lead] dropWhile_none[OF trail])
qed

lemma trim_empty_iff: "(trim s = []) = list_all isWhiteSpace s"
proof
  assume "trim s = []"
  then have "dropWhile isWhiteSpace (rev (dropWhile isWhiteSpace s)) = []"
    by (simp add: trim_def)
  then have "\<forall>x\<in>set (dropWhile isWhiteSpace s). isWhiteSpace x"
    by simp
  moreover have "dropWhile isWhiteSpace s \<noteq> [] \<Longrightarrow> \<not> isWhiteSpace (hd (dropWhile isWhiteSpace s))"
    by (rule hd_dropWhile)
  ultimately have "dropWhile isWhiteSpace s = []"
    by (metis hd_in_set)
  then show "list_all isWhiteSpace s"
    by (simp add: list_all_iff)
next
  assume "list_all isWhiteSpace s"
  then have d: "dropWhile isWhiteSpace s = []"
    by (simp add: list_all_iff)
  show "trim s = []"
    unfolding trim_def d by simp
qed

lemma u64_literal: "BigInt_of_digits (lit ''18446744073709551615'') = U64_MAX"
  by (simp add: BigInt_of_digits_def lit_def digitValue_def U64_MAX_def)

subsection \<open>The base-unit amount\<close>

lemma toBigIntAmount_digits:
  "digits_only (trim s) \<Longrightarrow>
   toBigIntAmount rt s (Finite (of_nat d)) = Inr (decimal_value (trim s) * 10 ^ d)"
  by (auto simp: toBigIntAmount_def Let_def digits_only_def BigInt_of_number_def
                 BigInt_of_digits_decimal_value)

lemma toBigIntAmount_blank:
  "list_all isWhiteSpace s \<Longrightarrow> toBigIntAmount rt s n = Inr 0"
  by (simp add: toBigIntAmount_def trim_empty_iff)

lemma toBigIntAmount_non_digit:
  "trim s \<noteq> [] \<Longrightarrow> \<not> list_all isDigit (trim s) \<Longrightarrow>
   toBigIntAmount rt s n = Inl (Error (lit ''Only whole numbers are supported for supply.''))"
  by (simp add: toBigIntAmount_def digits_only_def)

text \<open>
  Claim C1, as the code has it. \<open>toBigIntAmount\<close> trims its argument first, so:
  for every supply string whose trimmed form is a non-empty run of base-10 digits, and
  in particular for every string of digits only, and for every integer decimals in
  \<open>[0, 9]\<close>, the amount is the number the digits denote times \<open>10 ^ decimals\<close>, as an
  exact integer (for \<open>"1000000000"\<close> and 9 it is \<open>1000000000 * 10 ^ 9\<close>); an empty or
  whitespace-only string yields 0; and a string whose trimmed form is non-empty and
  holds a non-digit character raises the error of the source.
\<close>

theorem toBigIntAmount_exact:
  fixes d :: nat
  shows
    "(digits_only (trim s) \<and> d \<le> 9 \<longrightarrow>
        toBigIntAmount rt s (Finite (of_nat d)) = Inr (decimal_value (trim s) * 10 ^ d))
     \<and> (list_all isDigit s \<and> d \<le> 9 \<longrightarrow>
          toBigIntAmount rt s (Finite (of_nat d)) = Inr (decimal_value s * 10 ^ d))
     \<and> toBigIntAmount rt (lit ''1000000000'') (Finite 9) = Inr (1000000000 * 10 ^ 9)
     \<and> (list_all isWhiteSpace s \<longrightarrow> toBigIntAmount rt s n = Inr 0)
     \<and> (trim s \<noteq> [] \<and> \<not> list_all isDigit (trim s) \<longrightarrow>
          toBigIntAmount rt s n
            = Inl (Error (lit ''Only whole numbers are supported for supply.'')))"
proof -
  have all_digits: "toBigIntAmount rt s (Finite (of_nat d)) = Inr (decimal_value s * 10 ^ d)"
    if "list_all isDigit s"
  proof (cases "s = []")
    case True
    then show ?thesis
      by (simp add: toBigIntAmount_def trim_def decimal_value_def)
  next
    case False
    with that have "digits_only (trim s)"
      by (simp add: digits_only_def trim_digits)
    then show ?thesis
      using that by (simp add: toBigIntAmount_digits trim_digits)
  qed
  have example: "toBigIntAmount rt (lit ''1000000000'') (Finite 9) = Inr (1000000000 * 10 ^ 9)"
    by (simp add: toBigIntAmount_def trim_def lit_def isWhiteSpace_def digits_only_def
                  isDigit_def BigInt_of_number_def BigInt_of_digits_def digitValue_def)
  show ?thesis
    using all_digits example
    by (simp add: toBigIntAmount_digits toBigIntAmount_blank toBigIntAmount_non_digit)
qed

theorem toBigIntAmount_exact_witness:
  "digits_only (trim (lit '' 250 '')) \<and> (6::nat) \<le> 9
   \<and> toBigIntAmount plain_runtime (lit '' 250 '') (Finite 6) = Inr 250000000
   \<and> list_all isDigit (lit ''1000000000'')
   \<and> toBigIntAmount plain_runtime (lit ''1000000000'') (Finite 9) = Inr 1000000000000000000
   \<and> list_all isWhiteSpace (lit ''  '')
   \<and> toBigIntAmount plain_runtime (lit ''  '') (Finite 9) = Inr 0
   \<and> trim (lit ''1.5'') \<noteq> [] \<and> \<not> list_all isDigit (trim (lit ''1.5''))
   \<and> toBigIntAmount plain_runtime (lit ''1.5'') (Finite 9)
       = Inl (Error (lit ''Only whole numbers are supported for supply.''))"
proof -
  have digits: "digits_only (trim (lit '' 250 ''))" "list_all isDigit (lit ''1000000000'')"
    by (simp_all add: trim_def lit_def isWhiteSpace_def digits_only_def isDigit_def)
  have blank: "list_all isWhiteSpace (lit ''  '')"
    by (simp add: lit_def isWhiteSpace_def)
  have bad: "trim (lit ''1.5'') \<noteq> []" "\<not> list_all isDigit (trim (lit ''1.5''))"
    by (simp_all add: trim_def lit_def isWhiteSpace_def isDigit_def)
  have v250: "decimal_value (trim (lit '' 250 '')) = 250"
    by (simp add: BigInt_of_digits_decimal_value [symmetric] BigInt_of_digits_def trim_def
                  lit_def isWhiteSpace_def digitValue_def)
  show ?thesis
    using digits blank bad v250
      toBigIntAmount_exact [of "lit '' 250 ''" 6 plain_runtime "Finite 9"]
      toBigIntAmount_exact [of "lit ''  ''" 9 plain_runtime "Finite 9"]
      toBigIntAmount_exact [of "lit ''1.5''" 9 plain_runtime "Finite 9"]
    by simp
qed

text \<open>
  Claim C1 as it is written fails on a digit string with white space around it: the
  string \<open>" 12"\<close> is not empty and holds a character that is not a digit, and the
  function returns 12 instead of raising.
\<close>

theorem toBigIntAmount_padded_counterexample:
  "lit '' 12'' \<noteq> [] \<and> \<not> isDigit (hd (lit '' 12''))
   \<and> toBigIntAmount plain_runtime (lit '' 12'') (Finite 0) = Inr 12"
  by (simp add: toBigIntAmount_def trim_def lit_def isWhiteSpace_def digits_only_def
                isDigit_def BigInt_of_number_def BigInt_of_digits_def digitValue_def)

subsection \<open>The validator\<close>

lemma map_of_update:
  "map_of (AList.update k v al) k' = (if k' = k then Some v else map_of al k')"
  by (simp add: update_conv')

lemma map_of_name_validation:
  "k \<noteq> Name \<Longrightarrow> map_of (name_validation form e) k = map_of e k"
  by (simp add: name_validation_def map_of_update)

lemma map_of_symbol_validation_other:
  "k \<noteq> Symbol \<Longrightarrow> map_of (symbol_validation rt form e) k = map_of e k"
  by (simp add: symbol_validation_def map_of_update)

lemma map_of_symbol_validation:
  "map_of e Symbol = None \<Longrightarrow>
   (map_of (symbol_validation rt form e) Symbol \<noteq> None)
     = (trim (symbol form) = [] \<or> length (symbol form) > 10
        \<or> \<not> symbol_pattern (toUpperCase rt (symbol form)))"
  by (simp add: symbol_validation_def map_of_update MAX_SYMBOL_LENGTH_def)

lemma map_of_decimals_validation_other:
  "k \<noteq> Decimals \<Longrightarrow> map_of (decimals_validation rt form e) k = map_of e k"
  by (simp add: decimals_validation_def Let_def map_of_update)

lemma map_of_supply_validation_other:
  "k \<noteq> Supply \<Longrightarrow> map_of (supply_validation form e) k = map_of e k"
  by (simp add: supply_validation_def map_of_update)

lemma map_of_supply_validation:
  "map_of e Supply = None \<Longrightarrow>
   (map_of (supply_validation form e) Supply \<noteq> None)
     = (trim (supply_str form) = [] \<or> \<not> list_all isDigit (trim (supply_str form))
        \<or> decimal_value (trim (supply_str form)) \<le> 0
        \<or> decimal_value (trim (supply_str form)) > U64_MAX)"
  by (auto simp: supply_validation_def map_of_update digits_only_def u64_literal
                 BigInt_of_digits_decimal_value [symmetric])

lemma map_of_description_validation:
  "k \<noteq> Description \<Longrightarrow> map_of (description_validation form e) k = map_of e k"
  by (simp add: description_validation_def map_of_update)

lemma map_of_image_validation:
  "k \<noteq> Image \<Longrightarrow> map_of (image_validation imageFile e) k = map_of e k"
  by (simp add: image_validation_def Let_def map_of_update split: option.split)

lemma Number_blank: "list_all isWhiteSpace s \<Longrightarrow> Number rt s = Finite 0"
  by (simp add: Number_def trim_empty_iff)

lemma map_of_decimals_validation_blank:
  "list_all isWhiteSpace (decimals form) \<Longrightarrow>
   map_of (decimals_validation rt form e) Decimals = map_of e Decimals"
  by (simp add: decimals_validation_def Number_blank isNaN_def isInteger_def)

lemma map_of_decimals_validation:
  "map_of e Decimals = None \<Longrightarrow>
   (map_of (decimals_validation rt form e) Decimals = None)
     = (isInteger (Number rt (decimals form))
        \<and> \<not> number_less (Number rt (decimals form)) (Finite 0)
        \<and> \<not> number_less (Finite 9) (Number rt (decimals form)))"
  by (auto simp: decimals_validation_def Let_def map_of_update isNaN_def isInteger_def)

lemma validated_amount:
  assumes "validateForm rt form imageFile = []"
  shows "\<exists>a. toBigIntAmount rt (supply_str form) (Number rt (decimals form)) = Inr a"
proof -
  let ?e2 = "symbol_validation rt form (name_validation form [])"
  let ?e3 = "decimals_validation rt form ?e2"
  have all_none: "map_of (validateForm rt form imageFile) k = None" for k
    by (simp add: assms)
  have supply_after: "map_of (supply_validation form ?e3) Supply = None"
    using all_none [of Supply] unfolding validateForm_def Let_def
    by (simp only: map_of_image_validation map_of_description_validation
                   field.distinct not_False_eq_True simp_thms)
  have supply_before: "map_of ?e3 Supply = None"
    by (simp add: map_of_decimals_validation_other map_of_symbol_validation_other
                  map_of_name_validation)
  have supply_ok: "digits_only (trim (supply_str form))"
    using map_of_supply_validation [OF supply_before, of form] supply_after
    by (simp add: digits_only_def)
  have decs_after: "map_of ?e3 Decimals = None"
    using all_none [of Decimals] unfolding validateForm_def Let_def
    by (simp only: map_of_image_validation map_of_description_validation
                   map_of_supply_validation_other
                   field.distinct not_False_eq_True simp_thms)
  have decs_before: "map_of ?e2 Decimals = None"
    by (simp add: map_of_symbol_validation_other map_of_name_validation)
  have decs_ok:
    "isInteger (Number rt (decimals form))"
    "\<not> number_less (Number rt (decimals form)) (Finite 0)"
    using map_of_decimals_validation [OF decs_before, of rt form] decs_after by simp_all
  then obtain q where q: "Number rt (decimals form) = Finite q" "of_int \<lfloor>q\<rfloor> = q" "\<not> q < 0"
    by (cases "Number rt (decimals form)") (auto simp: isInteger_def)
  then have "\<not> \<lfloor>q\<rfloor> < 0" by linarith
  then show ?thesis
    using supply_ok q by (simp add: toBigIntAmount_def BigInt_of_number_def digits_only_def)
qed

text \<open>
  Claim C6, as the code has it. The validator reports a supply error exactly when the
  supply, after trimming, is empty, or holds a character that is not a digit, or denotes
  a value that is at most 0 or greater than 18446744073709551615; and it reports a
  symbol error exactly when the symbol is empty after trimming, or longer than 10 code
  units, or when its upper-cased form holds a character outside A-Z and 0-9.
\<close>

theorem validateForm_supply_symbol:
  "(map_of (validateForm rt form imageFile) Supply \<noteq> None)
     = (trim (supply_str form) = [] \<or> \<not> list_all isDigit (trim (supply_str form))
        \<or> decimal_value (trim (supply_str form)) \<le> 0
        \<or> decimal_value (trim (supply_str form)) > U64_MAX)
   \<and> (map_of (validateForm rt form imageFile) Symbol \<noteq> None)
     = (trim (symbol form) = [] \<or> length (symbol form) > 10
        \<or> \<not> symbol_pattern (toUpperCase rt (symbol form)))"
proof -
  have supply_none:
    "map_of (decimals_validation rt form (symbol_validation rt form (name_validation form [])))
       Supply = None"
    by (simp add: map_of_decimals_validation_other map_of_symbol_validation_other
                  map_of_name_validation)
  have symbol_none: "map_of (name_validation form []) Symbol = None"
    by (simp add: map_of_name_validation)
  show ?thesis
    unfolding validateForm_def Let_def
    by (simp only: map_of_image_validation map_of_description_validation
                   map_of_supply_validation_other map_of_decimals_validation_other
                   map_of_supply_validation [OF supply_none]
                   map_of_symbol_validation [OF symbol_none]
                   field.distinct not_False_eq_True simp_thms)
qed

theorem validateForm_supply_symbol_witness:
  "map_of (validateForm plain_runtime (DEFAULT_FORM\<lparr>name := lit ''Token'', symbol := lit ''TKN''\<rparr>) None)
     Supply = None
   \<and> map_of (validateForm plain_runtime (DEFAULT_FORM\<lparr>name := lit ''Token'', symbol := lit ''TKN''\<rparr>) None)
       Symbol = None
   \<and> list_all isDigit (trim (lit ''1000000000''))
   \<and> decimal_value (trim (lit ''1000000000'')) = 1000000000
   \<and> symbol_pattern (toUpperCase plain_runtime (lit ''TKN''))"
proof -
  have t: "trim (lit ''1000000000'') = lit ''1000000000''" "trim (lit ''TKN'') = lit ''TKN''"
    by (simp_all add: trim_def lit_def isWhiteSpace_def)
  have d: "list_all isDigit (lit ''1000000000'')"
    by (simp add: lit_def isDigit_def)
  have v: "decimal_value (lit ''1000000000'') = 1000000000"
    by (simp add: BigInt_of_digits_decimal_value [symmetric] BigInt_of_digits_def lit_def
                  digitValue_def)
  have p: "symbol_pattern (toUpperCase plain_runtime (lit ''TKN''))"
    by (simp add: symbol_pattern_def toUpperCase_def lit_def isLowerAZ_def isUpperAZ_def)
  have l: "length (lit ''TKN'') = 3" "lit ''TKN'' \<noteq> []" "lit ''1000000000'' \<noteq> []"
    by (simp_all add: lit_def)
  show ?thesis
    using validateForm_supply_symbol
            [of plain_runtime "DEFAULT_FORM\<lparr>name := lit ''Token'', symbol := lit ''TKN''\<rparr>" None]
          t d v p l
    by (simp add: DEFAULT_FORM_def U64_MAX_def)
qed

text \<open>
  Claim C6 as it is written fails in both directions. The symbol \<open>"A-B"\<close> is not empty
  and has three characters, yet the validator reports a symbol error (the character
  test); and the supply \<open>" 12"\<close> holds a character that is not a digit, yet the
  validator reports no supply error (the supply is trimmed first).
\<close>

theorem validateForm_supply_symbol_counterexample:
  "lit ''A-B'' \<noteq> [] \<and> length (lit ''A-B'') \<le> 10
   \<and> map_of (validateForm plain_runtime
                (DEFAULT_FORM\<lparr>name := lit ''Token'', symbol := lit ''A-B''\<rparr>) None) Symbol
       = Some (lit ''Symbol can only contain letters and numbers'')
   \<and> \<not> isDigit (hd (lit '' 12''))
   \<and> map_of (validateForm plain_runtime
                (DEFAULT_FORM\<lparr>name := lit ''Token'', symbol := lit ''TKN'',
                               supply_str := lit '' 12''\<rparr>) None) Supply
       = None"
  by (simp add: validateForm_def name_validation_def symbol_validation_def
        decimals_validation_def supply_validation_def description_validation_def
        image_validation_def DEFAULT_FORM_def trim_def lit_def isWhiteSpace_def digits_only_def
        isDigit_def name_pattern_def symbol_pattern_def toUpperCase_def isLowerAZ_def
        isUpperAZ_def Number_def BigInt_of_digits_def digitValue_def isNaN_def isInteger_def
        MAX_NAME_LENGTH_def MAX_SYMBOL_LENGTH_def MAX_DESCRIPTION_LENGTH_def plain_runtime_def)

text \<open>
  Claim C10. When the decimals string is empty or holds white space only, \<open>Number\<close>
  gives 0 for it, and the validator reports no decimals error, whatever the rest of the
  form and the image are.
\<close>

theorem blank_decimals_accepted:
  "list_all isWhiteSpace (decimals form) \<Longrightarrow>
   Number rt (decimals form) = Finite 0
   \<and> isInteger (Number rt (decimals form))
   \<and> \<not> number_less (Number rt (decimals form)) (Finite 0)
   \<and> \<not> number_less (Finite 9) (Number rt (decimals form))
   \<and> map_of (validateForm rt form imageFile) Decimals = None"
proof -
  assume blank: "list_all isWhiteSpace (decimals form)"
  have "map_of (validateForm rt form imageFile) Decimals
        = map_of (symbol_validation rt form (name_validation form [])) Decimals"
    unfolding validateForm_def Let_def
    by (simp only: map_of_image_validation map_of_description_validation
                   map_of_supply_validation_other map_of_decimals_validation_blank [OF blank]
                   field.distinct not_False_eq_True simp_thms)
  also have "\<dots> = None"
    by (simp add: map_of_symbol_validation_other map_of_name_validation)
  finally show ?thesis
    using blank by (simp add: Number_blank isInteger_def)
qed

theorem blank_decimals_accepted_witness:
  "list_all isWhiteSpace (decimals (DEFAULT_FORM\<lparr>decimals := lit ''  ''\<rparr>))
   \<and> Number plain_runtime (lit ''  '') = Finite 0
   \<and> map_of (validateForm plain_runtime (DEFAULT_FORM\<lparr>decimals := lit ''  ''\<rparr>) None) Decimals
       = None
   \<and> list_all isWhiteSpace (decimals (DEFAULT_FORM\<lparr>decimals := []\<rparr>))
   \<and> map_of (validateForm plain_runtime (DEFAULT_FORM\<lparr>decimals := []\<rparr>) None) Decimals = None"
proof -
  have b: "list_all isWhiteSpace (decimals (DEFAULT_FORM\<lparr>decimals := lit ''  ''\<rparr>))"
    by (simp add: lit_def isWhiteSpace_def)
  have e: "list_all isWhiteSpace (decimals (DEFAULT_FORM\<lparr>decimals := []\<rparr>))"
    by simp
  show ?thesis
    using b e
      blank_decimals_accepted [OF b, of plain_runtime None]
      blank_decimals_accepted [OF e, of plain_runtime None]
    by simp
qed

section \<open>Properties of the orchestrator\<close>

subsection \<open>Calls are made in order, and a thrown call is the last\<close>

lemma orderly_finish: "orderly_at finish s"
  by (simp add: orderly_at_def finish_def new_calls_def)

lemma orderly_perform:
  assumes same: "calls (f s) = calls s" and rest: "orderly_at rest (f s)"
  shows "orderly_at (perform f rest) s"
  using rest unfolding orderly_at_def perform_def new_calls_def same .

lemma orderly_attempt:
  assumes "r = Inr a" "orderly_at (rest a) s"
  shows "orderly_at (attempt r rest) s"
  using assms by (simp add: orderly_at_def attempt_def)

lemma orderly_await:
  assumes "\<And>v s'. orderly_at (rest v) s'"
  shows "orderly_at (await c r rest) s"
proof (cases r)
  case (Inl t)
  then show ?thesis
    by (simp add: orderly_at_def await_def new_calls_def returned_def)
next
  case (Inr v)
  let ?s1 = "s\<lparr>calls := calls s @ [(c, None)]\<rparr>"
  obtain caught s' where res: "rest v ?s1 = (caught, s')"
    by (cases "rest v ?s1")
  from assms [of v ?s1] res
  have pre: "take (Suc (length (calls s))) (calls s') = calls s @ [(c, None)]"
    and post: "(case caught of
                None \<Rightarrow> list_all returned (new_calls ?s1 s')
              | Some t \<Rightarrow> new_calls ?s1 s' \<noteq> [] \<and> snd (last (new_calls ?s1 s')) = Some t
                          \<and> list_all returned (butlast (new_calls ?s1 s')))"
    by (simp_all add: orderly_at_def)
  from pre have split: "calls s' = calls s @ (c, None) # drop (Suc (length (calls s))) (calls s')"
    by (metis append_take_drop_id append.assoc append_Cons append_Nil)
  have n1: "new_calls ?s1 s' = drop (Suc (length (calls s))) (calls s')"
    by (simp add: new_calls_def)
  have n0: "new_calls s s' = (c, None) # new_calls ?s1 s'"
    unfolding n1 new_calls_def by (subst split) simp
  have t0: "take (length (calls s)) (calls s') = calls s"
    by (subst split) simp
  show ?thesis
    using post t0 Inr res
    by (auto simp: orderly_at_def await_def n0 returned_def split: option.splits)
qed

lemma orderly_try_block:
  assumes "toBigIntAmount rt (supply_str form) (Number rt (decimals form)) = Inr a"
  shows "orderly_at (try_block rt form pk net) s"
  unfolding try_block_def metadata_step_def revocation_step_def Let_def
  by (intro orderly_await orderly_perform orderly_attempt [OF assms] orderly_finish
            allI impI conjI | simp add: setCurrentStep_def setStatusMessage_def setMintAddress_def setTokenAccount_def split: prod.splits)+


subsection \<open>The gates\<close>

lemma createToken_started:
  assumes "gates rt inp"
  shows "createToken rt inp net s =
           (case try_block rt (in_form inp) (the (in_publicKey inp)) net (prepared s) of
              (caught, s') \<Rightarrow>
                 setIsLaunching False (case caught of None \<Rightarrow> s' | Some e \<Rightarrow> catch_clause e s'))"
  using assms
  by (auto simp: gates_def createToken_def prepared_def Let_def split: option.splits prod.splits)

lemma createToken_rejected:
  assumes "\<not> gates rt inp"
  shows "statusType (createToken rt inp net s) = StatusError
         \<and> calls (createToken rt inp net s) = calls s
         \<and> currentStep (createToken rt inp net s) = currentStep s
         \<and> isLaunching (createToken rt inp net s) = isLaunching s"
  using assms
  by (auto simp: gates_def createToken_def Let_def setStatusMessage_def setFormErrors_def
           split: option.splits)


lemma await_adds:
  assumes "\<And>v s'. orderly_at (rest v) s'"
  shows "new_calls s (snd (await c r rest s)) \<noteq> []"
proof (cases r)
  case (Inl t)
  then show ?thesis by (simp add: await_def new_calls_def)
next
  case (Inr v)
  let ?s1 = "s\<lparr>calls := calls s @ [(c, None)]\<rparr>"
  have "take (Suc (length (calls s))) (calls (snd (rest v ?s1))) = calls s @ [(c, None)]"
    using assms [of v ?s1] by (simp add: orderly_at_def split: prod.splits)
  then have "length (take (Suc (length (calls s))) (calls (snd (rest v ?s1)))) = Suc (length (calls s))"
    by simp
  then have "Suc (length (calls s)) \<le> length (calls (snd (rest v ?s1)))"
    by simp
  then show ?thesis
    using Inr by (simp add: await_def new_calls_def)
qed

lemma try_block_adds:
  assumes "toBigIntAmount rt (supply_str form) (Number rt (decimals form)) = Inr a"
  shows "new_calls s (snd (try_block rt form pk net s)) \<noteq> []"
  unfolding try_block_def metadata_step_def revocation_step_def Let_def
  apply (rule await_adds)
  apply (intro orderly_await orderly_perform orderly_attempt [OF assms] orderly_finish
            allI impI conjI | simp add: setCurrentStep_def setStatusMessage_def setMintAddress_def setTokenAccount_def split: prod.splits)+
  done

subsection \<open>The steps, one by one\<close>

lemmas setter_defs = setCurrentStep_def setStatusMessage_def setMintAddress_def
  setTokenAccount_def setIsLaunching_def

lemma revocation_step_result:
  "fst (revocation_step pk net tokenAta s) = None \<longleftrightarrow> revocation_confirmed net"
  "calls (snd (revocation_step pk net tokenAta s)) = calls s @ revocation_log pk net"
  "revocation_confirmed net \<Longrightarrow> statusType (snd (revocation_step pk net tokenAta s)) = StatusSuccess"
  "revocation_confirmed net \<Longrightarrow> currentStep (snd (revocation_step pk net tokenAta s)) = 5"
  by (cases "revokeSig_result net"; cases "revokeConfirmation_result net";
      simp add: revocation_step_def revocation_log_def revocation_confirmed_def thrown_of_def
                await_def perform_def finish_def setter_defs)+

lemma metadata_step_skipped:
  "trim (metadataUrl form) = [] \<Longrightarrow> metadata_step rt form pk net rest s = rest s"
  by (simp add: metadata_step_def)

lemma metadata_step_failed:
  assumes "trim (metadataUrl form) \<noteq> []" "\<not> metadata_confirmed net"
  shows "fst (metadata_step rt form pk net rest s) \<noteq> None"
    and "calls (snd (metadata_step rt form pk net rest s)) = calls s @ metadata_log rt form pk net"
  using assms
  by (cases "metadataPda_result net"; cases "metadataSig_result net";
      cases "metadataConfirmation_result net";
      simp add: metadata_step_def metadata_log_def metadata_confirmed_def thrown_of_def
                await_def perform_def setter_defs)+

lemma metadata_step_confirmed:
  assumes "trim (metadataUrl form) \<noteq> []" "metadata_confirmed net"
  shows "metadata_step rt form pk net rest s =
           rest (s\<lparr>currentStep := 3,
                    status := lit ''Step 3/4: Creating on-chain metadata...'',
                    statusType := StatusInfo,
                    calls := calls s @ metadata_log rt form pk net\<rparr>)"
  using assms
  by (cases "metadataPda_result net"; cases "metadataSig_result net";
      cases "metadataConfirmation_result net";
      simp add: metadata_step_def metadata_log_def metadata_confirmed_def thrown_of_def
                await_def perform_def setter_defs)

lemma try_block_confirmed:
  assumes "lamports_result net = Inr l" "ata_result net = Inr tokenAta"
      "latestBlockhash_result net = Inr bh" "signature_result net = Inr sg"
      "confirmation_result net = Inr ()"
    and "toBigIntAmount rt (supply_str form) (Number rt (decimals form)) = Inr a"
  shows "try_block rt form pk net s =
           metadata_step rt form pk net (revocation_step pk net tokenAta)
             (s\<lparr>currentStep := 2,
                status := lit ''Step 2/4: Confirming transaction...'',
                statusType := StatusInfo,
                calls := calls s @ mint_log pk net l tokenAta bh sg (Number rt (decimals form)) a\<rparr>)"
  using assms
  by (cases bh)
     (simp add: try_block_def Let_def await_def attempt_def perform_def setter_defs mint_log_def)


lemma calls_prepared: "calls (prepared s) = calls s"
  by (simp add: prepared_def setStatusMessage_def setCurrentStep_def setIsLaunching_def)

lemma final_calls:
  "calls (setIsLaunching False (case caught of None \<Rightarrow> s2 | Some e \<Rightarrow> catch_clause e s2)) = calls s2"
  by (simp add: setter_defs catch_clause_def split: option.splits)

lemma final_statusType:
  "statusType (setIsLaunching False (case caught of None \<Rightarrow> s2 | Some e \<Rightarrow> catch_clause e s2))
     = (case caught of None \<Rightarrow> statusType s2 | Some e \<Rightarrow> StatusError)"
  by (simp add: setter_defs catch_clause_def split: option.splits)

lemma last_failure:
  assumes "(c, Some t) \<in> set xs" "list_all returned (butlast xs)" "xs \<noteq> []"
  shows "last xs = (c, Some t)"
proof -
  from assms(3) obtain ys y where xs: "xs = ys @ [y]"
    by (cases xs rule: rev_cases) auto
  with assms(2) have "(c, Some t) \<notin> set ys"
    by (auto simp: list_all_iff returned_def)
  with assms(1) xs show ?thesis by simp
qed

subsection \<open>Evaluated examples\<close>

lemma example_valid: "validateForm plain_runtime example_form None = []"
  by (simp add: example_form_def validateForm_def name_validation_def symbol_validation_def
        decimals_validation_def supply_validation_def description_validation_def
        image_validation_def DEFAULT_FORM_def trim_def lit_def isWhiteSpace_def digits_only_def
        isDigit_def name_pattern_def symbol_pattern_def toUpperCase_def isLowerAZ_def
        isUpperAZ_def Number_def BigInt_of_digits_def digitValue_def isNaN_def isInteger_def
        MAX_NAME_LENGTH_def MAX_SYMBOL_LENGTH_def MAX_DESCRIPTION_LENGTH_def)

lemma example_gates: "gates plain_runtime example_inputs"
  by (simp add: gates_def example_inputs_def example_valid)

lemma uri_valid:
  "validateForm plain_runtime (example_form\<lparr>metadataUrl := lit ''ipfs://meta''\<rparr>) None = []"
  by (simp add: example_form_def validateForm_def name_validation_def symbol_validation_def
        decimals_validation_def supply_validation_def description_validation_def
        image_validation_def DEFAULT_FORM_def trim_def lit_def isWhiteSpace_def digits_only_def
        isDigit_def name_pattern_def symbol_pattern_def toUpperCase_def isLowerAZ_def
        isUpperAZ_def Number_def BigInt_of_digits_def digitValue_def isNaN_def isInteger_def
        MAX_NAME_LENGTH_def MAX_SYMBOL_LENGTH_def MAX_DESCRIPTION_LENGTH_def)

lemma uri_gates: "gates plain_runtime inputs_with_uri"
  by (simp add: gates_def inputs_with_uri_def example_inputs_def uri_valid)

lemma example_amount:
  "toBigIntAmount plain_runtime (supply_str example_form) (Finite 9) = Inr 1000000000000000000"
  by (simp add: example_form_def DEFAULT_FORM_def toBigIntAmount_def trim_def lit_def
        isWhiteSpace_def digits_only_def isDigit_def Number_def BigInt_of_number_def
        BigInt_of_digits_def digitValue_def)

lemma example_decimals: "Number plain_runtime (decimals example_form) = Finite 9"
  by (simp add: example_form_def DEFAULT_FORM_def trim_def lit_def
        isWhiteSpace_def isDigit_def Number_def BigInt_of_digits_def digitValue_def)

lemma rejected_run:
  "new_calls initial_page (createToken plain_runtime example_inputs rejecting initial_page)
     = [(GetMinimumBalanceForRentExemption MINT_SIZE, None),
        (GetAssociatedTokenAddress (PublicKey (lit ''Mint'')) example_wallet, None),
        (GetLatestBlockhash, None),
        (rejected_submission, Some (Error (lit ''User rejected the request.'')))]"
  unfolding createToken_started [OF example_gates] try_block_def Let_def
  by (simp add: example_inputs_def example_amount example_decimals rejecting_def obliging_def
        await_def attempt_def perform_def setter_defs prepared_def initial_page_def
        new_calls_def catch_clause_def rejected_submission_def)


subsection \<open>The claims about the sequence\<close>

text \<open>
  Claim C2. Let the gates be passed and the five calls of steps 1 and 2 return, so that
  the mint-creation transaction is confirmed. If the metadata URI is empty after
  trimming, the calls of the run are those five followed at once by the calls of the
  revocation step, which begin with the submission of a transaction of two instructions
  that set the mint authority and the freeze authority to none: no call of the metadata
  step is made, and the run ends in the error state exactly when the revocation itself
  is not confirmed. If the URI is not empty, the calls of the metadata step come right
  after the five, and the calls of the revocation step follow them once the metadata
  transaction is confirmed. The metadata transaction that is submitted holds one
  instruction, which creates the metadata account at the derived address for the mint,
  with the wallet as mint authority, payer and update authority, the trimmed name, the
  trimmed and upper-cased symbol, the trimmed URI, no seller fee, and marked immutable.
\<close>

theorem metadata_step_optional:
  assumes g: "gates rt inp" and pk: "in_publicKey inp = Some pk"
    and confirmed: "lamports_result net = Inr l" "ata_result net = Inr tokenAta"
      "latestBlockhash_result net = Inr bh" "signature_result net = Inr sg"
      "confirmation_result net = Inr ()"
  shows
   "(trim (metadataUrl (in_form inp)) = [] \<longrightarrow>
        (\<exists>amount. new_calls s (createToken rt inp net s)
            = mint_log pk net l tokenAta bh sg (Number rt (decimals (in_form inp))) amount
              @ revocation_log pk net)
        \<and> (statusType (createToken rt inp net s) = StatusError) = (\<not> revocation_confirmed net))
    \<and> (trim (metadataUrl (in_form inp)) \<noteq> [] \<longrightarrow>
        (\<exists>amount. new_calls s (createToken rt inp net s)
            = mint_log pk net l tokenAta bh sg (Number rt (decimals (in_form inp))) amount
              @ metadata_log rt (in_form inp) pk net
              @ (if metadata_confirmed net then revocation_log pk net else [])))
    \<and> instructions (metadataTx rt (in_form inp) pk (mintKeypair net) metadataPda)
        = [CreateMetadataAccountV3 metadataPda (mintKeypair net) pk pk pk
             (trim (name (in_form inp))) (toUpperCase rt (trim (symbol (in_form inp))))
             (trim (metadataUrl (in_form inp))) 0 False]
    \<and> instructions (revokeTx pk (mintKeypair net))
        = [SetAuthority (mintKeypair net) pk MintTokens None,
           SetAuthority (mintKeypair net) pk FreezeAccount None]"
proof -
  obtain a where
    a: "toBigIntAmount rt (supply_str (in_form inp)) (Number rt (decimals (in_form inp))) = Inr a"
    using g validated_amount [of rt "in_form inp" "in_imageFile inp"] by (auto simp: gates_def)
  have pk': "the (in_publicKey inp) = pk" using pk by simp
  let ?form = "in_form inp"
  let ?s5 = "(prepared s)\<lparr>currentStep := 2,
                status := lit ''Step 2/4: Confirming transaction...'',
                statusType := StatusInfo,
                calls := calls (prepared s)
                  @ mint_log pk net l tokenAta bh sg (Number rt (decimals ?form)) a\<rparr>"
  have run: "try_block rt ?form pk net (prepared s)
               = metadata_step rt ?form pk net (revocation_step pk net tokenAta) ?s5"
    by (rule try_block_confirmed [OF confirmed a])
  have final: "createToken rt inp net s =
      (case metadata_step rt ?form pk net (revocation_step pk net tokenAta) ?s5 of
         (caught, s') \<Rightarrow>
            setIsLaunching False (case caught of None \<Rightarrow> s' | Some e \<Rightarrow> catch_clause e s'))"
    by (simp add: createToken_started [OF g] pk' run)
  have skipped: ?thesis if empty: "trim (metadataUrl ?form) = []"
  proof -
    let ?r = "revocation_step pk net tokenAta ?s5"
    have "createToken rt inp net s =
            setIsLaunching False (case fst ?r of None \<Rightarrow> snd ?r | Some e \<Rightarrow> catch_clause e (snd ?r))"
      by (simp add: final metadata_step_skipped [OF empty] case_prod_beta)
    then have "calls (createToken rt inp net s) = calls (snd ?r)"
      and st: "statusType (createToken rt inp net s)
             = (case fst ?r of None \<Rightarrow> statusType (snd ?r) | Some e \<Rightarrow> StatusError)"
      by (simp_all add: final_calls final_statusType)
    then have "new_calls s (createToken rt inp net s)
          = mint_log pk net l tokenAta bh sg (Number rt (decimals ?form)) a @ revocation_log pk net"
      by (simp add: new_calls_def revocation_step_result calls_prepared)
    moreover have "(statusType (createToken rt inp net s) = StatusError) = (\<not> revocation_confirmed net)"
    proof (cases "revocation_confirmed net")
      case True
      then have "fst ?r = None" "statusType (snd ?r) = StatusSuccess"
        by (simp_all add: revocation_step_result)
      with True show ?thesis by (simp add: st)
    next
      case False
      then have "fst ?r \<noteq> None"
        by (simp add: revocation_step_result)
      then obtain e where "fst ?r = Some e" by auto
      with False show ?thesis by (simp add: st)
    qed
    ultimately show ?thesis
      using empty by (auto simp: revokeTx_def metadataTx_def)
  qed
  have attached: ?thesis if nonempty: "trim (metadataUrl ?form) \<noteq> []"
  proof (cases "metadata_confirmed net")
    case True
    have "new_calls s (createToken rt inp net s)
          = mint_log pk net l tokenAta bh sg (Number rt (decimals ?form)) a
            @ metadata_log rt ?form pk net @ revocation_log pk net"
      by (simp add: final metadata_step_confirmed [OF nonempty True] case_prod_beta final_calls
                    revocation_step_result new_calls_def calls_prepared)
    then show ?thesis
      using nonempty True by (auto simp: revokeTx_def metadataTx_def)
  next
    case False
    let ?r = "metadata_step rt ?form pk net (revocation_step pk net tokenAta) ?s5"
    have "createToken rt inp net s =
            setIsLaunching False (case fst ?r of None \<Rightarrow> snd ?r | Some e \<Rightarrow> catch_clause e (snd ?r))"
      by (simp add: final case_prod_beta)
    then have "calls (createToken rt inp net s) = calls (snd ?r)"
      by (simp add: final_calls)
    then have "new_calls s (createToken rt inp net s)
          = mint_log pk net l tokenAta bh sg (Number rt (decimals ?form)) a
            @ metadata_log rt ?form pk net"
      by (simp add: new_calls_def metadata_step_failed(2) [OF nonempty False] calls_prepared)
    then show ?thesis
      using nonempty False by (auto simp: revokeTx_def metadataTx_def)
  qed
  show ?thesis
    using skipped attached by blast
qed

theorem metadata_step_optional_witness:
  "gates plain_runtime example_inputs
   \<and> trim (metadataUrl (in_form example_inputs)) = []
   \<and> drop 5 (new_calls initial_page (createToken plain_runtime example_inputs obliging initial_page))
       = [(SendTransaction (revokeTx example_wallet (PublicKey (lit ''Mint''))) [], None),
          (ConfirmTransaction (TransactionSignature (lit ''Sig3'')) None, None),
          (RefreshBalance, None)]
   \<and> statusType (createToken plain_runtime example_inputs obliging initial_page) \<noteq> StatusError
   \<and> gates plain_runtime inputs_with_uri
   \<and> trim (metadataUrl (in_form inputs_with_uri)) \<noteq> []
   \<and> map fst (drop 5 (new_calls initial_page
                          (createToken plain_runtime inputs_with_uri obliging initial_page)))
       = [FindProgramAddress TOKEN_METADATA_PROGRAM_ID (PublicKey (lit ''Mint'')),
          SendTransaction
            (metadataTx plain_runtime (in_form inputs_with_uri) example_wallet
               (PublicKey (lit ''Mint'')) (PublicKey (lit ''Pda''))) [],
          ConfirmTransaction (TransactionSignature (lit ''Sig2'')) None,
          SendTransaction (revokeTx example_wallet (PublicKey (lit ''Mint''))) [],
          ConfirmTransaction (TransactionSignature (lit ''Sig3'')) None,
          RefreshBalance]
   \<and> instructions (metadataTx plain_runtime (in_form inputs_with_uri) example_wallet
                      (PublicKey (lit ''Mint'')) (PublicKey (lit ''Pda'')))
       = [CreateMetadataAccountV3 (PublicKey (lit ''Pda'')) (PublicKey (lit ''Mint''))
            example_wallet example_wallet example_wallet
            (lit ''Token'') (lit ''TKN'') (lit ''ipfs://meta'') 0 False]
   \<and> instructions (revokeTx example_wallet (PublicKey (lit ''Mint'')))
       = [SetAuthority (PublicKey (lit ''Mint'')) example_wallet MintTokens None,
          SetAuthority (PublicKey (lit ''Mint'')) example_wallet FreezeAccount None]"
proof -
  have confirmed:
    "lamports_result obliging = Inr 1461600" "ata_result obliging = Inr (PublicKey (lit ''Ata''))"
    "latestBlockhash_result obliging = Inr (Blockhash (lit ''Hash''), 100)"
    "signature_result obliging = Inr (TransactionSignature (lit ''Sig1''))"
    "confirmation_result obliging = Inr ()"
    by (simp_all add: obliging_def)
  have keys: "in_publicKey example_inputs = Some example_wallet"
    "in_publicKey inputs_with_uri = Some example_wallet"
    by (simp_all add: example_inputs_def inputs_with_uri_def)
  have empty: "trim (metadataUrl (in_form example_inputs)) = []"
    by (simp add: example_inputs_def example_form_def DEFAULT_FORM_def trim_def)
  have nonempty: "trim (metadataUrl (in_form inputs_with_uri)) \<noteq> []"
    by (simp add: inputs_with_uri_def trim_def lit_def isWhiteSpace_def)
  have logs:
    "revocation_log example_wallet obliging
       = [(SendTransaction (revokeTx example_wallet (PublicKey (lit ''Mint''))) [], None),
          (ConfirmTransaction (TransactionSignature (lit ''Sig3'')) None, None),
          (RefreshBalance, None)]"
    "metadata_log plain_runtime (in_form inputs_with_uri) example_wallet obliging
       = [(FindProgramAddress TOKEN_METADATA_PROGRAM_ID (PublicKey (lit ''Mint'')), None),
          (SendTransaction
             (metadataTx plain_runtime (in_form inputs_with_uri) example_wallet
                (PublicKey (lit ''Mint'')) (PublicKey (lit ''Pda''))) [], None),
          (ConfirmTransaction (TransactionSignature (lit ''Sig2'')) None, None)]"
    "revocation_confirmed obliging" "metadata_confirmed obliging"
    by (simp_all add: revocation_log_def metadata_log_def revocation_confirmed_def
                      metadata_confirmed_def thrown_of_def obliging_def)
  have fields:
    "trim (name (in_form inputs_with_uri)) = lit ''Token''"
    "toUpperCase plain_runtime (trim (symbol (in_form inputs_with_uri))) = lit ''TKN''"
    "trim (metadataUrl (in_form inputs_with_uri)) = lit ''ipfs://meta''"
    "mintKeypair obliging = PublicKey (lit ''Mint'')"
    by (simp_all add: inputs_with_uri_def example_inputs_def example_form_def DEFAULT_FORM_def
                      trim_def toUpperCase_def lit_def isWhiteSpace_def isLowerAZ_def
                      obliging_def)
  note skipped =
    metadata_step_optional [OF example_gates keys(1) confirmed,
      where s = initial_page and metadataPda = "PublicKey (lit ''Pda'')"]
  note attached =
    metadata_step_optional [OF uri_gates keys(2) confirmed,
      where s = initial_page and metadataPda = "PublicKey (lit ''Pda'')"]
  have metadata_instructions:
    "instructions (metadataTx plain_runtime (in_form inputs_with_uri) example_wallet
                     (PublicKey (lit ''Mint'')) (PublicKey (lit ''Pda'')))
       = [CreateMetadataAccountV3 (PublicKey (lit ''Pda'')) (PublicKey (lit ''Mint''))
            example_wallet example_wallet example_wallet
            (lit ''Token'') (lit ''TKN'') (lit ''ipfs://meta'') 0 False]"
    using attached [THEN conjunct2, THEN conjunct2, THEN conjunct1]
    by (simp only: fields)
  have revoke_instructions:
    "instructions (revokeTx example_wallet (PublicKey (lit ''Mint'')))
       = [SetAuthority (PublicKey (lit ''Mint'')) example_wallet MintTokens None,
          SetAuthority (PublicKey (lit ''Mint'')) example_wallet FreezeAccount None]"
    using attached [THEN conjunct2, THEN conjunct2, THEN conjunct2]
    by (simp only: fields)
  have calls_of_runs:
    "drop 5 (new_calls initial_page (createToken plain_runtime example_inputs obliging initial_page))
       = [(SendTransaction (revokeTx example_wallet (PublicKey (lit ''Mint''))) [], None),
          (ConfirmTransaction (TransactionSignature (lit ''Sig3'')) None, None),
          (RefreshBalance, None)]
     \<and> statusType (createToken plain_runtime example_inputs obliging initial_page) \<noteq> StatusError
     \<and> map fst (drop 5 (new_calls initial_page
                            (createToken plain_runtime inputs_with_uri obliging initial_page)))
         = [FindProgramAddress TOKEN_METADATA_PROGRAM_ID (PublicKey (lit ''Mint'')),
            SendTransaction
              (metadataTx plain_runtime (in_form inputs_with_uri) example_wallet
                 (PublicKey (lit ''Mint'')) (PublicKey (lit ''Pda''))) [],
            ConfirmTransaction (TransactionSignature (lit ''Sig2'')) None,
            SendTransaction (revokeTx example_wallet (PublicKey (lit ''Mint''))) [],
            ConfirmTransaction (TransactionSignature (lit ''Sig3'')) None,
            RefreshBalance]"
    using skipped [THEN conjunct1] attached [THEN conjunct2, THEN conjunct1]
          empty nonempty logs
    by (auto simp: mint_log_def)
  show ?thesis
    using example_gates uri_gates empty nonempty calls_of_runs metadata_instructions
          revoke_instructions
    by (intro conjI) simp_all
qed

text \<open>
  Claim C3. Whenever a call of the sequence throws, be it a rejected signature request,
  a failed submission or a failed confirmation, the run ends with the status set to the
  message of the thrown error, or to the fallback text when the thrown value is not an
  error, with the status type set to error and the step counter back at zero (and the
  launching flag cleared); and the call that threw is the last call of the run, every
  call before it having returned: no later step is executed.
\<close>

theorem createToken_failure:
  assumes failed: "(c, Some t) \<in> set (new_calls s (createToken rt inp net s))"
  shows "status (createToken rt inp net s)
           = (case t of Error message \<Rightarrow> message
              | NonError \<Rightarrow> lit ''Token creation failed. Please try again.'')
         \<and> statusType (createToken rt inp net s) = StatusError
         \<and> currentStep (createToken rt inp net s) = 0
         \<and> \<not> isLaunching (createToken rt inp net s)
         \<and> last (calls (createToken rt inp net s)) = (c, Some t)
         \<and> list_all returned (butlast (new_calls s (createToken rt inp net s)))"
proof (cases "gates rt inp")
  case False
  then have "new_calls s (createToken rt inp net s) = []"
    using createToken_rejected [of rt inp net s] by (simp add: new_calls_def)
  with failed show ?thesis by simp
next
  case True
  then obtain a where
    a: "toBigIntAmount rt (supply_str (in_form inp)) (Number rt (decimals (in_form inp))) = Inr a"
    using validated_amount [of rt "in_form inp" "in_imageFile inp"] by (auto simp: gates_def)
  let ?pk = "the (in_publicKey inp)"
  obtain caught s2 where run: "try_block rt (in_form inp) ?pk net (prepared s) = (caught, s2)"
    by (cases "try_block rt (in_form inp) ?pk net (prepared s)")
  let ?s' = "createToken rt inp net s"
  have final: "?s' = setIsLaunching False (case caught of None \<Rightarrow> s2 | Some e \<Rightarrow> catch_clause e s2)"
    by (simp add: createToken_started [OF True] run)
  have calls_final: "calls ?s' = calls s2"
    by (simp add: final setIsLaunching_def catch_clause_def setCurrentStep_def
                  setStatusMessage_def split: option.splits)
  have new: "new_calls s ?s' = new_calls (prepared s) s2"
    by (simp add: new_calls_def calls_final calls_prepared)
  from orderly_try_block [OF a, of ?pk net "prepared s"] run
  have pre: "take (length (calls s)) (calls s2) = calls s"
    and post: "(case caught of
                  None \<Rightarrow> list_all returned (new_calls (prepared s) s2)
                | Some t \<Rightarrow> new_calls (prepared s) s2 \<noteq> []
                            \<and> snd (last (new_calls (prepared s) s2)) = Some t
                            \<and> list_all returned (butlast (new_calls (prepared s) s2)))"
    by (simp_all add: orderly_at_def calls_prepared)
  show ?thesis
  proof (cases caught)
    case None
    with post have "list_all returned (new_calls s ?s')" by (simp add: new)
    with failed show ?thesis by (auto simp: list_all_iff returned_def)
  next
    case (Some t')
    with post have ne: "new_calls s ?s' \<noteq> []"
      and lst: "snd (last (new_calls s ?s')) = Some t'"
      and rest: "list_all returned (butlast (new_calls s ?s'))"
      by (simp_all add: new)
    from last_failure [OF failed rest ne] have l: "last (new_calls s ?s') = (c, Some t)" .
    with lst have tt: "t' = t" by simp
    have "last (calls ?s') = last (new_calls s ?s')"
      using ne unfolding new_calls_def by (simp add: last_drop)
    with l have lc: "last (calls ?s') = (c, Some t)" by simp
    show ?thesis
      using lc rest
      by (simp add: final Some tt setIsLaunching_def catch_clause_def setCurrentStep_def
                    setStatusMessage_def catch_message_def)
  qed
qed


theorem createToken_failure_witness:
  "(rejected_submission, Some (Error (lit ''User rejected the request.'')))
     \<in> set (new_calls initial_page (createToken plain_runtime example_inputs rejecting initial_page))
   \<and> status (createToken plain_runtime example_inputs rejecting initial_page)
       = lit ''User rejected the request.''
   \<and> statusType (createToken plain_runtime example_inputs rejecting initial_page) = StatusError
   \<and> currentStep (createToken plain_runtime example_inputs rejecting initial_page) = 0
   \<and> \<not> isLaunching (createToken plain_runtime example_inputs rejecting initial_page)
   \<and> length (new_calls initial_page (createToken plain_runtime example_inputs rejecting initial_page))
       = 4"
proof -
  have thrown:
    "(rejected_submission, Some (Error (lit ''User rejected the request.'')))
       \<in> set (new_calls initial_page
                 (createToken plain_runtime example_inputs rejecting initial_page))"
    by (simp add: rejected_run)
  show ?thesis
    using createToken_failure [OF thrown] thrown by (simp add: rejected_run)
qed

text \<open>
  Claim C7. A run of \<open>createToken\<close> makes a call (the first one is the rent query for
  the mint transaction) exactly when the gates are passed: a wallet key is present, the
  validator returns the empty error object, and the balance, if a reading is available,
  is not below \<open>TOTAL_ESTIMATED_COST\<close>, which is the sum from the left of the four
  constants for the mint account, the token account, the metadata account and the
  transaction fees (each constant and each partial sum a double). When a gate fails,
  the run sets an error status and returns with no call made, the step counter and the
  launching flag untouched.
\<close>

theorem createToken_gated:
  "(new_calls s (createToken rt inp net s) \<noteq> []) = gates rt inp
   \<and> (\<not> gates rt inp \<longrightarrow>
        statusType (createToken rt inp net s) = StatusError
        \<and> calls (createToken rt inp net s) = calls s
        \<and> currentStep (createToken rt inp net s) = currentStep s
        \<and> isLaunching (createToken rt inp net s) = isLaunching s)
   \<and> TOTAL_ESTIMATED_COST rt
       = Finite (nearestDouble rt
           (nearestDouble rt
              (nearestDouble rt (nearestDouble rt 0.00145 + nearestDouble rt 0.00204)
               + nearestDouble rt 0.01)
            + nearestDouble rt 0.00015))"
proof (cases "gates rt inp")
  case False
  then show ?thesis
    using createToken_rejected [of rt inp net s]
    by (simp add: new_calls_def TOTAL_ESTIMATED_COST_def ESTIMATED_COSTS_def)
next
  case True
  then obtain a where
    a: "toBigIntAmount rt (supply_str (in_form inp)) (Number rt (decimals (in_form inp))) = Inr a"
    using validated_amount [of rt "in_form inp" "in_imageFile inp"] by (auto simp: gates_def)
  let ?pk = "the (in_publicKey inp)"
  obtain caught s2 where run: "try_block rt (in_form inp) ?pk net (prepared s) = (caught, s2)"
    by (cases "try_block rt (in_form inp) ?pk net (prepared s)")
  have "calls (createToken rt inp net s) = calls s2"
    by (simp add: createToken_started [OF True] run setIsLaunching_def catch_clause_def
                  setCurrentStep_def setStatusMessage_def split: option.splits)
  then have "new_calls s (createToken rt inp net s) = new_calls (prepared s) s2"
    by (simp add: new_calls_def calls_prepared)
  moreover have "new_calls (prepared s) s2 \<noteq> []"
    using try_block_adds [OF a, of "prepared s" ?pk net] run by simp
  ultimately show ?thesis
    using True by (simp add: TOTAL_ESTIMATED_COST_def ESTIMATED_COSTS_def)
qed

theorem createToken_gated_witness:
  "gates plain_runtime example_inputs
   \<and> new_calls initial_page (createToken plain_runtime example_inputs obliging initial_page) \<noteq> []
   \<and> \<not> gates plain_runtime disconnected_inputs
   \<and> statusType (createToken plain_runtime disconnected_inputs obliging initial_page) = StatusError
   \<and> calls (createToken plain_runtime disconnected_inputs obliging initial_page) = []
   \<and> TOTAL_ESTIMATED_COST plain_runtime = Finite 0.01364
   \<and> \<not> gates plain_runtime underfunded_inputs
   \<and> statusType (createToken plain_runtime underfunded_inputs obliging initial_page) = StatusError
   \<and> calls (createToken plain_runtime underfunded_inputs obliging initial_page) = []"
proof -
  have total: "TOTAL_ESTIMATED_COST plain_runtime = Finite 0.01364"
    by (simp add: TOTAL_ESTIMATED_COST_def ESTIMATED_COSTS_def plain_runtime_def)
  have closed: "\<not> gates plain_runtime disconnected_inputs"
    "\<not> gates plain_runtime underfunded_inputs"
    by (simp_all add: gates_def disconnected_inputs_def underfunded_inputs_def
                      example_inputs_def total)
  show ?thesis
    using createToken_gated [of initial_page plain_runtime example_inputs obliging]
          createToken_gated [of initial_page plain_runtime disconnected_inputs obliging]
          createToken_gated [of initial_page plain_runtime underfunded_inputs obliging]
          example_gates closed total
    by (simp add: initial_page_def)
qed



subsection \<open>The amount handed to the mint instruction\<close>

lemma max_supply_valid: "validateForm rt max_supply_form None = []"
  by (simp add: max_supply_form_def validateForm_def name_validation_def symbol_validation_def
        decimals_validation_def supply_validation_def description_validation_def
        image_validation_def DEFAULT_FORM_def trim_def lit_def isWhiteSpace_def digits_only_def
        isDigit_def name_pattern_def symbol_pattern_def toUpperCase_def isLowerAZ_def
        isUpperAZ_def Number_def BigInt_of_digits_def digitValue_def isNaN_def isInteger_def
        MAX_NAME_LENGTH_def MAX_SYMBOL_LENGTH_def MAX_DESCRIPTION_LENGTH_def)

lemma max_supply_decimals: "Number rt (decimals max_supply_form) = Finite 9"
  by (simp add: max_supply_form_def DEFAULT_FORM_def trim_def lit_def
        isWhiteSpace_def isDigit_def Number_def BigInt_of_digits_def digitValue_def)

lemma max_supply_amount:
  "toBigIntAmount rt (supply_str max_supply_form) (Finite 9) = Inr (18446744073709551615 * 10 ^ 9)"
  by (simp add: max_supply_form_def DEFAULT_FORM_def toBigIntAmount_def trim_def lit_def
        isWhiteSpace_def digits_only_def isDigit_def BigInt_of_number_def
        BigInt_of_digits_def digitValue_def)

lemma max_supply_gates: "gates rt max_supply_inputs"
  by (simp add: gates_def max_supply_inputs_def example_inputs_def max_supply_valid)

lemma max_supply_run:
  "(SendTransaction max_supply_mint_tx [PublicKey (lit ''Mint'')], None)
     \<in> set (new_calls initial_page (createToken rt max_supply_inputs obliging initial_page))"
proof -
  have confirmed:
    "lamports_result obliging = Inr 1461600" "ata_result obliging = Inr (PublicKey (lit ''Ata''))"
    "latestBlockhash_result obliging = Inr (Blockhash (lit ''Hash''), 100)"
    "signature_result obliging = Inr (TransactionSignature (lit ''Sig1''))"
    "confirmation_result obliging = Inr ()"
    by (simp_all add: obliging_def)
  have amount: "toBigIntAmount rt (supply_str max_supply_form) (Number rt (decimals max_supply_form))
                  = Inr (18446744073709551615 * 10 ^ 9)"
    by (simp add: max_supply_decimals max_supply_amount)
  have key: "the (in_publicKey max_supply_inputs) = example_wallet"
    "in_form max_supply_inputs = max_supply_form"
    by (simp_all add: max_supply_inputs_def example_inputs_def)
  have empty: "trim (metadataUrl max_supply_form) = []"
    by (simp add: max_supply_form_def DEFAULT_FORM_def trim_def)
  have mint: "mintKeypair obliging = PublicKey (lit ''Mint'')"
    by (simp add: obliging_def)
  show ?thesis
    unfolding createToken_started [OF max_supply_gates] key
      try_block_confirmed [OF confirmed amount] metadata_step_skipped [OF empty]
    by (simp add: case_prod_beta final_calls new_calls_def revocation_step_result calls_prepared
                  initial_page_def mint_log_def max_supply_mint_tx_def max_supply_decimals mint)
qed

text \<open>
  Claim C9. The form \<open>max_supply_form\<close> (supply \<open>"18446744073709551615"\<close>, decimals
  \<open>"9"\<close>) is accepted by the validator, with an empty error object, under every
  runtime; the base-unit amount computed from it is \<open>18446744073709551615 * 10 ^ 9\<close>,
  which is strictly greater than the unsigned 64-bit maximum; and a run of
  \<open>createToken\<close> on this form submits a mint transaction whose \<open>MintTo\<close> instruction
  carries that amount.
\<close>

theorem scaled_amount_exceeds_u64:
  "supply_str max_supply_form = lit ''18446744073709551615''
   \<and> decimals max_supply_form = lit ''9''
   \<and> validateForm rt max_supply_form None = []
   \<and> toBigIntAmount rt (supply_str max_supply_form) (Number rt (decimals max_supply_form))
       = Inr (18446744073709551615 * 10 ^ 9)
   \<and> (18446744073709551615 * 10 ^ 9 :: int) > U64_MAX
   \<and> (SendTransaction max_supply_mint_tx [PublicKey (lit ''Mint'')], None)
       \<in> set (new_calls initial_page (createToken rt max_supply_inputs obliging initial_page))
   \<and> MintTo (PublicKey (lit ''Mint'')) (PublicKey (lit ''Ata'')) example_wallet
        (18446744073709551615 * 10 ^ 9)
       \<in> set (instructions max_supply_mint_tx)"
proof -
  have form: "supply_str max_supply_form = lit ''18446744073709551615''"
    "decimals max_supply_form = lit ''9''"
    by (simp_all add: max_supply_form_def DEFAULT_FORM_def)
  have amount:
    "toBigIntAmount rt (supply_str max_supply_form) (Number rt (decimals max_supply_form))
       = Inr (18446744073709551615 * 10 ^ 9)"
    by (simp add: max_supply_decimals max_supply_amount)
  have above: "(18446744073709551615 * 10 ^ 9 :: int) > U64_MAX"
    by (simp add: U64_MAX_def)
  have minted: "MintTo (PublicKey (lit ''Mint'')) (PublicKey (lit ''Ata'')) example_wallet
        (18446744073709551615 * 10 ^ 9) \<in> set (instructions max_supply_mint_tx)"
    by (simp add: max_supply_mint_tx_def createMintTx_def)
  show ?thesis
    by (intro conjI) (fact form max_supply_valid amount above max_supply_run minted)+
qed

theorem scaled_amount_exceeds_u64_witness:
  "validateForm plain_runtime max_supply_form None = []
   \<and> toBigIntAmount plain_runtime (supply_str max_supply_form)
         (Number plain_runtime (decimals max_supply_form))
       = Inr (18446744073709551615 * 10 ^ 9)
   \<and> (18446744073709551615 * 10 ^ 9 :: int) > U64_MAX"
  using scaled_amount_exceeds_u64 [of plain_runtime] by blast

section \<open>Properties of the upload endpoint\<close>

subsection \<open>The helpers and the two outcomes of validation\<close>

lemma read_hash_sent: "snd (read_hash req failure fetched) = [req]"
  by (simp add: read_hash_def split: sum.splits)





lemma uploadFile_payload:
  "req \<in> set (snd (uploadFileToPinata env fetch f)) \<Longrightarrow> \<exists>n. payload req = FileBody f n"
  by (auto simp: uploadFileToPinata_def Let_def read_hash_sent split: sum.splits)

lemma uploadJson_payload:
  "req \<in> set (snd (uploadJsonToPinata env fetch j)) \<Longrightarrow> payload req = JsonBody j"
  by (auto simp: uploadJsonToPinata_def Let_def read_hash_sent split: sum.splits)

lemma error_message_error_response: "error_message (json_body (error_response m c)) = Some m"
  by (simp add: error_response_def)



lemma validation_rule_fails_alt:
  "validation_rule_fails formData =
     (case map_of formData (lit ''image'') of
        Some (Blob f) \<Rightarrow>
          file_size f > MAX_FILE_SIZE \<or> file_type f \<notin> set ALLOWED_TYPES
          \<or> text_field formData ''name'' = []
          \<or> length (text_field formData ''name'') > MAX_NAME_LENGTH
          \<or> text_field formData ''symbol'' = []
          \<or> length (text_field formData ''symbol'') > MAX_SYMBOL_LENGTH
          \<or> length (text_field formData ''description'') > MAX_DESCRIPTION_LENGTH
      | _ \<Rightarrow> True)"
  by (simp add: validation_rule_fails_def MAX_FILE_SIZE_def ALLOWED_TYPES_def MAX_NAME_LENGTH_def
                MAX_SYMBOL_LENGTH_def MAX_DESCRIPTION_LENGTH_def
           cong: option.case_cong entry.case_cong)

lemma configured_check:
  "credentials_configured env \<Longrightarrow>
   (\<not> truthy (map_option trim (PINATA_JWT env))
      \<and> \<not> (truthy (map_option trim (PINATA_API_KEY env))
            \<and> truthy (map_option trim (PINATA_API_SECRET env)))) = False"
  by (auto simp: credentials_configured_def)

lemma POST_invalid:
  assumes c: "credentials_configured env" and v: "validation_rule_fails formData"
  shows "\<exists>m. POST rt env fetch (Inr formData) = (error_response m 400, [])"
proof (cases "map_of formData (lit ''image'')")
  case None
  then show ?thesis
    unfolding POST_def Let_def configured_check [OF c] if_False by simp blast
next
  case (Some e)
  show ?thesis
  proof (cases e)
    case (Text t)
    with Some show ?thesis
      unfolding POST_def Let_def configured_check [OF c] if_False by simp blast
  next
    case (Blob f)
    from v have rules:
      "file_size f > MAX_FILE_SIZE \<or> file_type f \<notin> set ALLOWED_TYPES
       \<or> text_field formData ''name'' = []
       \<or> length (text_field formData ''name'') > MAX_NAME_LENGTH
       \<or> text_field formData ''symbol'' = []
       \<or> length (text_field formData ''symbol'') > MAX_SYMBOL_LENGTH
       \<or> length (text_field formData ''description'') > MAX_DESCRIPTION_LENGTH"
      by (simp add: validation_rule_fails_alt Some Blob)
    show ?thesis
      unfolding POST_def Let_def configured_check [OF c] if_False
      using rules
      by (simp add: Some Blob) blast
  qed
qed

lemma POST_valid:
  assumes "credentials_configured env" "\<not> validation_rule_fails formData"
  shows "\<exists>f. map_of formData (lit ''image'') = Some (Blob f)
           \<and> POST rt env fetch (Inr formData) =
               (case uploadFileToPinata env fetch f of
                  (Inl t, sent) \<Rightarrow> (upload_failed t, sent)
                | (Inr imageCid, sent) \<Rightarrow>
                    (case uploadJsonToPinata env fetch
                            (JObject (metadata_object rt (text_field formData ''name'')
                               (text_field formData ''symbol'') (text_field formData ''description'')
                               (lit ''https://gateway.pinata.cloud/ipfs/'' @ imageCid) f
                               (text_field formData ''website'') (text_field formData ''twitter'')
                               (text_field formData ''telegram''))) of
                       (Inl t, sent') \<Rightarrow> (upload_failed t, sent @ sent')
                     | (Inr metadataCid, sent') \<Rightarrow>
                         (\<lparr>status_code = 200,
                           json_body =
                             JObject
                               [(''success'', JBool True),
                                (''imageUrl'', JString (lit ''https://gateway.pinata.cloud/ipfs/'' @ imageCid)),
                                (''metadataUrl'',
                                   JString (lit ''https://gateway.pinata.cloud/ipfs/'' @ metadataCid))]\<rparr>,
                          sent @ sent')))"
proof -
  from assms(2) obtain f where img: "map_of formData (lit ''image'') = Some (Blob f)"
    by (auto simp: validation_rule_fails_alt split: option.splits entry.splits)
  with assms(2) have rules:
    "\<not> file_size f > MAX_FILE_SIZE" "file_type f \<in> set ALLOWED_TYPES"
    "text_field formData ''name'' \<noteq> []"
    "\<not> length (text_field formData ''name'') > MAX_NAME_LENGTH"
    "text_field formData ''symbol'' \<noteq> []"
    "\<not> length (text_field formData ''symbol'') > MAX_SYMBOL_LENGTH"
    "\<not> length (text_field formData ''description'') > MAX_DESCRIPTION_LENGTH"
    by (simp_all add: validation_rule_fails_alt)
  show ?thesis
    unfolding POST_def Let_def configured_check [OF assms(1)] if_False
    using rules
    by (simp add: img)
qed


lemma POST_valid_document:
  assumes "credentials_configured env" "\<not> validation_rule_fails formData"
  shows "\<exists>f. map_of formData (lit ''image'') = Some (Blob f)
           \<and> POST rt env fetch (Inr formData) =
               (case uploadFileToPinata env fetch f of
                  (Inl t, sent) \<Rightarrow> (upload_failed t, sent)
                | (Inr imageCid, sent) \<Rightarrow>
                    (case uploadJsonToPinata env fetch (metadata_document rt formData f imageCid) of
                       (Inl t, sent') \<Rightarrow> (upload_failed t, sent @ sent')
                     | (Inr metadataCid, sent') \<Rightarrow>
                         (\<lparr>status_code = 200,
                           json_body =
                             JObject
                               [(''success'', JBool True),
                                (''imageUrl'', JString (gateway_url imageCid)),
                                (''metadataUrl'', JString (gateway_url metadataCid))]\<rparr>,
                          sent @ sent')))"
  using POST_valid [OF assms, of rt fetch]
  unfolding metadata_document_def gateway_url_def .

lemma extensions_of_document:
  "extensions_of (metadata_document rt formData f imageCid) =
     (if text_field formData ''website'' = [] \<and> text_field formData ''twitter'' = []
         \<and> text_field formData ''telegram'' = []
      then None
      else Some (JObject (social_links (text_field formData ''website'')
                            (text_field formData ''twitter'') (text_field formData ''telegram''))))"
  by (simp add: metadata_document_def metadata_object_def Let_def spread_def social_links_def
                delete_conv')

lemma POST_json_payload:
  assumes "req \<in> set (snd (POST rt env fetch (Inr formData)))" "payload req = JsonBody doc"
  shows "\<exists>f imageCid. doc = metadata_document rt formData f imageCid"
proof (cases "credentials_configured env")
  case False
  with assms(1) show ?thesis
    by (simp add: POST_def Let_def credentials_configured_def)
next
  case c: True
  show ?thesis
  proof (cases "validation_rule_fails formData")
    case True
    from POST_invalid [OF c True, of rt fetch] assms(1) show ?thesis by auto
  next
    case False
    from POST_valid_document [OF c False, of rt fetch] obtain f
      where post: "POST rt env fetch (Inr formData) =
               (case uploadFileToPinata env fetch f of
                  (Inl t, sent) \<Rightarrow> (upload_failed t, sent)
                | (Inr imageCid, sent) \<Rightarrow>
                    (case uploadJsonToPinata env fetch (metadata_document rt formData f imageCid) of
                       (Inl t, sent') \<Rightarrow> (upload_failed t, sent @ sent')
                     | (Inr metadataCid, sent') \<Rightarrow>
                         (\<lparr>status_code = 200,
                           json_body =
                             JObject
                               [(''success'', JBool True),
                                (''imageUrl'', JString (gateway_url imageCid)),
                                (''metadataUrl'', JString (gateway_url metadataCid))]\<rparr>,
                          sent @ sent')))"
      by blast
    obtain r1 sent1 where u1: "uploadFileToPinata env fetch f = (r1, sent1)"
      by (cases "uploadFileToPinata env fetch f")
    have not_file: "req \<notin> set sent1"
      using uploadFile_payload [of req env fetch f] u1 assms(2) by auto
    show ?thesis
    proof (cases r1)
      case (Inl e)
      with post u1 assms(1) not_file show ?thesis by simp
    next
      case (Inr imageCid)
      obtain r2 sent2 where
        u2: "uploadJsonToPinata env fetch (metadata_document rt formData f imageCid) = (r2, sent2)"
        by (cases "uploadJsonToPinata env fetch (metadata_document rt formData f imageCid)")
      from post u1 u2 Inr assms(1) not_file have "req \<in> set sent2"
        by (cases r2) simp_all
      then have "payload req = JsonBody (metadata_document rt formData f imageCid)"
        using uploadJson_payload [of req env fetch "metadata_document rt formData f imageCid"] u2
        by simp
      with assms(2) show ?thesis by auto
    qed
  qed
qed

subsection \<open>Evaluated requests\<close>

lemma example_fields:
  "text_field example_request ''name'' = lit ''Token''"
  "text_field example_request ''symbol'' = lit ''tkn''"
  "text_field example_request ''description'' = []"
  "text_field example_request ''website'' = lit ''a.io''"
  "text_field example_request ''twitter'' = []"
  "text_field example_request ''telegram'' = []"
  "map_of example_request (lit ''image'') = Some (Blob example_image)"
  "map_of example_request (lit ''website'') = Some (Text (lit '' a.io ''))"
  by (simp_all add: text_field_def example_request_def String_of_entry_def trim_def lit_def
                    isWhiteSpace_def)

lemma example_request_valid: "\<not> validation_rule_fails example_request"
  by (simp add: validation_rule_fails_def example_fields example_image_def)
     (simp add: lit_def)

lemma token_configured: "credentials_configured token_environment"
  by (simp add: credentials_configured_def token_environment_def truthy_def trim_def lit_def
                isWhiteSpace_def)

lemma no_credentials_unconfigured: "\<not> credentials_configured no_credentials"
  by (simp add: credentials_configured_def no_credentials_def truthy_def trim_def lit_def
                isWhiteSpace_def)

lemma token_headers:
  "getPinataAuthHeaders token_environment = Inr [(''Authorization'', lit ''Bearer '' @ lit ''jwt'')]"
  by (simp add: getPinataAuthHeaders_def token_environment_def truthy_def trim_def lit_def
                isWhiteSpace_def)

lemma example_uploads:
  "uploadFileToPinata token_environment pinning_ok example_image
     = (Inr (lit ''Qm''), [example_file_request])"
  "uploadJsonToPinata token_environment pinning_ok j
     = (Inr (lit ''Qm''),
        [\<lparr>url = PINATA_JSON_ENDPOINT,
          headers = [(''Authorization'', lit ''Bearer '' @ lit ''jwt''),
                     (''Content-Type'', lit ''application/json'')],
          payload = JsonBody j\<rparr>])"
  by (simp_all add: uploadFileToPinata_def uploadJsonToPinata_def token_headers Let_def
        read_hash_def pinning_ok_def truthy_def example_file_request_def example_image_def)
     (simp_all add: lit_def)

lemma example_POST:
  "POST plain_runtime token_environment pinning_ok (Inr example_request)
     = (\<lparr>status_code = 200,
         json_body = JObject [(''success'', JBool True),
                              (''imageUrl'', JString (gateway_url (lit ''Qm''))),
                              (''metadataUrl'', JString (gateway_url (lit ''Qm'')))]\<rparr>,
        [example_file_request, example_json_request])"
  using POST_valid_document [OF token_configured example_request_valid, of plain_runtime pinning_ok]
  by (simp add: example_fields example_uploads example_json_request_def)


lemma plain_fields:
  "text_field plain_request ''name'' = lit ''Token''"
  "text_field plain_request ''symbol'' = lit ''tkn''"
  "text_field plain_request ''description'' = []"
  "text_field plain_request ''website'' = []"
  "text_field plain_request ''twitter'' = []"
  "text_field plain_request ''telegram'' = []"
  "map_of plain_request (lit ''image'') = Some (Blob example_image)"
  by (simp_all add: text_field_def plain_request_def String_of_entry_def trim_def lit_def
                    isWhiteSpace_def)

lemma plain_request_valid: "\<not> validation_rule_fails plain_request"
  by (simp add: validation_rule_fails_def plain_fields example_image_def)
     (simp add: lit_def)

lemma plain_POST:
  "snd (POST plain_runtime token_environment pinning_ok (Inr plain_request))
     = [example_file_request, plain_json_request]"
  using POST_valid_document [OF token_configured plain_request_valid, of plain_runtime pinning_ok]
  by (simp add: plain_fields example_uploads plain_json_request_def)


subsection \<open>The claims about the endpoint\<close>

text \<open>
  Claim C4, as the code has it. Every metadata document that the endpoint sends to the
  pinning service has no \<open>extensions\<close> field when website, twitter and telegram, as
  the endpoint reads them (the supplied text, trimmed), are all empty; otherwise its
  \<open>extensions\<close> field is the object of exactly those of the three keys whose value is
  not empty, in their order, each with its trimmed value.
\<close>

theorem extensions_of_metadata:
  "req \<in> set (snd (POST rt env fetch (Inr formData))) \<and> payload req = JsonBody doc \<longrightarrow>
     (text_field formData ''website'' = [] \<and> text_field formData ''twitter'' = []
        \<and> text_field formData ''telegram'' = [] \<longrightarrow> extensions_of doc = None)
     \<and> (\<not> (text_field formData ''website'' = [] \<and> text_field formData ''twitter'' = []
            \<and> text_field formData ''telegram'' = []) \<longrightarrow>
          extensions_of doc
            = Some (JObject (social_links (text_field formData ''website'')
                               (text_field formData ''twitter'') (text_field formData ''telegram''))))"
proof
  assume "req \<in> set (snd (POST rt env fetch (Inr formData))) \<and> payload req = JsonBody doc"
  then obtain f imageCid where "doc = metadata_document rt formData f imageCid"
    using POST_json_payload [of req rt env fetch formData doc] by blast
  then show "(text_field formData ''website'' = [] \<and> text_field formData ''twitter'' = []
        \<and> text_field formData ''telegram'' = [] \<longrightarrow> extensions_of doc = None)
     \<and> (\<not> (text_field formData ''website'' = [] \<and> text_field formData ''twitter'' = []
            \<and> text_field formData ''telegram'' = []) \<longrightarrow>
          extensions_of doc
            = Some (JObject (social_links (text_field formData ''website'')
                               (text_field formData ''twitter'') (text_field formData ''telegram''))))"
    by (simp add: extensions_of_document)
qed


theorem extensions_of_metadata_witness:
  "example_json_request \<in> set (snd (POST plain_runtime token_environment pinning_ok (Inr example_request)))
   \<and> text_field example_request ''website'' \<noteq> []
   \<and> extensions_of (metadata_document plain_runtime example_request example_image (lit ''Qm''))
       = Some (JObject [(''website'', JString (lit ''a.io''))])
   \<and> plain_json_request \<in> set (snd (POST plain_runtime token_environment pinning_ok (Inr plain_request)))
   \<and> text_field plain_request ''website'' = [] \<and> text_field plain_request ''twitter'' = []
   \<and> text_field plain_request ''telegram'' = []
   \<and> extensions_of (metadata_document plain_runtime plain_request example_image (lit ''Qm'')) = None"
proof -
  have sent:
    "example_json_request
       \<in> set (snd (POST plain_runtime token_environment pinning_ok (Inr example_request)))"
    "plain_json_request
       \<in> set (snd (POST plain_runtime token_environment pinning_ok (Inr plain_request)))"
    by (simp_all add: example_POST plain_POST)
  have payloads:
    "payload example_json_request
       = JsonBody (metadata_document plain_runtime example_request example_image (lit ''Qm''))"
    "payload plain_json_request
       = JsonBody (metadata_document plain_runtime plain_request example_image (lit ''Qm''))"
    by (simp_all add: example_json_request_def plain_json_request_def)
  have nonempty: "lit ''a.io'' \<noteq> []"
    by (simp add: lit_def)
  show ?thesis
    using extensions_of_metadata
            [of example_json_request plain_runtime token_environment pinning_ok example_request
                "metadata_document plain_runtime example_request example_image (lit ''Qm'')"]
          extensions_of_metadata
            [of plain_json_request plain_runtime token_environment pinning_ok plain_request
                "metadata_document plain_runtime plain_request example_image (lit ''Qm'')"]
          sent payloads nonempty
    by (simp add: example_fields plain_fields social_links_def)
qed

text \<open>
  Claim C4 as it is written fails on a value with white space around it: the request
  supplies the website \<open>" a.io "\<close>, and the document that the endpoint sends maps the
  key to \<open>"a.io"\<close>, which is not the supplied value.
\<close>

theorem extensions_trimmed_counterexample:
  "map_of example_request (lit ''website'') = Some (Text (lit '' a.io ''))
   \<and> example_json_request
       \<in> set (snd (POST plain_runtime token_environment pinning_ok (Inr example_request)))
   \<and> payload example_json_request
       = JsonBody (metadata_document plain_runtime example_request example_image (lit ''Qm''))
   \<and> extensions_of (metadata_document plain_runtime example_request example_image (lit ''Qm''))
       = Some (JObject [(''website'', JString (lit ''a.io''))])
   \<and> lit ''a.io'' \<noteq> lit '' a.io ''"
  by (simp add: example_POST example_json_request_def extensions_of_document example_fields
                social_links_def)
     (simp add: lit_def)

text \<open>
  Claim C5. When no credentials are configured (after trimming: no token, and no
  complete pair of key and secret), the endpoint answers every request, whatever the
  form data and the pinning service, with status 500 and the JSON body whose error is
  the configuration message, and it makes no outbound request.
\<close>

theorem upload_without_credentials:
  "\<not> credentials_configured env \<Longrightarrow>
   POST rt env fetch request
     = (\<lparr>status_code = 500,
         json_body = JObject [(''error'',
           JString (lit ''Server configuration error: Missing Pinata credentials.''))]\<rparr>, [])"
  by (simp add: POST_def Let_def credentials_configured_def error_response_def)


theorem upload_without_credentials_witness:
  "\<not> credentials_configured no_credentials
   \<and> POST plain_runtime no_credentials pinning_ok (Inr example_request)
       = (\<lparr>status_code = 500,
           json_body = JObject [(''error'',
             JString (lit ''Server configuration error: Missing Pinata credentials.''))]\<rparr>, [])"
  using upload_without_credentials
          [OF no_credentials_unconfigured, of plain_runtime pinning_ok "Inr example_request"]
        no_credentials_unconfigured
  by simp









end
